theory Spec2Isabelle
  imports Complex_Main
begin

section \<open>Values of the Python runtime\<close>

text \<open>
  A Python \<open>float\<close> is either a finite number or one of the three special values.
  The decoded JSON bodies and the records handled by the program are values of
  type \<open>pyval\<close>; a \<open>dict\<close> is kept as an association list read with \<open>map_of\<close>.
\<close>

datatype pyfloat = Fin real | PosInf | NegInf | NaN

datatype pyval =
    PNone
  | PBool bool
  | PInt int
  | PFloat pyfloat
  | PStr string
  | PList "pyval list"
  | PDict "(string \<times> pyval) list"

text \<open>The exceptions that the modelled code can raise, as values.\<close>

datatype error =
    TypeError
  | ValueError
  | OverflowError
  | AttributeError
  | KeyError string
  | RequestException string
  | HTTPError nat
  | JSONDecodeError
  | FacebookAdsError pyval
  | RetryError error
  | FileNotFoundError string
  | SheetsError string

text \<open>Truth value of an object, as used by \<open>if x:\<close>, \<open>not x\<close> and \<open>while x:\<close>.\<close>

fun truthy :: "pyval \<Rightarrow> bool" where
  "truthy PNone = False"
| "truthy (PBool b) = b"
| "truthy (PInt n) = (n \<noteq> 0)"
| "truthy (PFloat f) = (f \<noteq> Fin 0)"
| "truthy (PStr s) = (s \<noteq> [])"
| "truthy (PList xs) = (xs \<noteq> [])"
| "truthy (PDict kvs) = (kvs \<noteq> [])"

text \<open>\<open>d.get(k, default)\<close>; on an object that is not a dict it raises AttributeError.\<close>

fun py_get :: "pyval \<Rightarrow> string \<Rightarrow> pyval \<Rightarrow> error + pyval" where
  "py_get (PDict kvs) k dflt = Inr (case map_of kvs k of None \<Rightarrow> dflt | Some v \<Rightarrow> v)"
| "py_get _ k dflt = Inl AttributeError"

subsection \<open>Conversion to float\<close>

text \<open>
  \<open>float(n)\<close> for an int rounds to 53 significant bits, ties to even, and raises
  OverflowError when the rounded magnitude reaches \<open>2^1024\<close>, which is the case
  exactly from \<open>2^1024 - 2^970\<close> on.
\<close>

fun nbits :: "nat \<Rightarrow> nat" where
  "nbits n = (if n = 0 then 0 else Suc (nbits (n div 2)))"

declare nbits.simps [simp del]

definition round53 :: "int \<Rightarrow> int" where
  "round53 n =
     (let a = nat \<bar>n\<bar>; e = nbits a in
      if e \<le> 53 then n
      else
        let sh = e - 53; q = a div 2 ^ sh; r = a mod 2 ^ sh; h = 2 ^ (sh - 1);
            q' = (if h < r \<or> (r = h \<and> odd q) then q + 1 else q)
        in sgn n * int (q' * 2 ^ sh))"

definition float_of_int :: "int \<Rightarrow> error + pyfloat" where
  "float_of_int n =
     (if 2 ^ 1024 - 2 ^ 970 \<le> \<bar>n\<bar> then Inl OverflowError
      else Inr (Fin (real_of_int (round53 n))))"

text \<open>
  \<open>float(x)\<close>. The parser of numeric strings belongs to the runtime and is the
  parameter \<open>str2f\<close>: it yields \<open>None\<close> where \<open>float\<close> raises ValueError.
\<close>

fun py_float :: "(string \<Rightarrow> pyfloat option) \<Rightarrow> pyval \<Rightarrow> error + pyfloat" where
  "py_float str2f PNone = Inl TypeError"
| "py_float str2f (PBool b) = Inr (Fin (if b then 1 else 0))"
| "py_float str2f (PInt n) = float_of_int n"
| "py_float str2f (PFloat f) = Inr f"
| "py_float str2f (PStr s) = (case str2f s of None \<Rightarrow> Inl ValueError | Some f \<Rightarrow> Inr f)"
| "py_float str2f (PList xs) = Inl TypeError"
| "py_float str2f (PDict kvs) = Inl TypeError"

section \<open>The Processor\<close>

text \<open>
  A row record as \<open>process_daily_data\<close> builds it. The spend is the int \<open>0\<close> of the
  handler or the float that \<open>float\<close> returned.
\<close>

record row =
  campaign_name :: pyval
  ad_name :: pyval
  spend :: pyval
  date_start :: string
  date_stop :: string

text \<open>
  The \<open>try\<close> around \<open>float(entry.get("spend", 0))\<close> handles TypeError and ValueError
  only; any other exception leaves the function.
\<close>

definition parse_spend :: "(string \<Rightarrow> pyfloat option) \<Rightarrow> pyval \<Rightarrow> error + pyval" where
  "parse_spend str2f entry =
     (case py_get entry ''spend'' (PInt 0) of
        Inl e \<Rightarrow> Inl e
      | Inr v \<Rightarrow>
          (case py_float str2f v of
             Inr f \<Rightarrow> Inr (PFloat f)
           | Inl TypeError \<Rightarrow> Inr (PInt 0)
           | Inl ValueError \<Rightarrow> Inr (PInt 0)
           | Inl e \<Rightarrow> Inl e))"

text \<open>
  A dict whose iteration order matters is an association list with distinct keys in
  insertion order: \<open>d[k] = v\<close> replaces the value in place or appends the new key.
\<close>

fun dict_set :: "('k \<times> 'v) list \<Rightarrow> 'k \<Rightarrow> 'v \<Rightarrow> ('k \<times> 'v) list" where
  "dict_set [] k v = [(k, v)]"
| "dict_set ((k', v') # kvs) k v =
     (if k' = k then (k, v) # kvs else (k', v') # dict_set kvs k v)"

text \<open>The row that one iteration appends: the spend first, then the dict display.\<close>

definition make_row :: "(string \<Rightarrow> pyfloat option) \<Rightarrow> string \<Rightarrow> pyval \<Rightarrow> error + row" where
  "make_row str2f date entry =
     (case parse_spend str2f entry of
        Inl e \<Rightarrow> Inl e
      | Inr sp \<Rightarrow>
          (case py_get entry ''campaign_name'' (PStr ''Not Available'') of
             Inl e \<Rightarrow> Inl e
           | Inr cn \<Rightarrow>
               (case py_get entry ''ad_name'' (PStr ''Not Available'') of
                  Inl e \<Rightarrow> Inl e
                | Inr an \<Rightarrow>
                    Inr \<lparr>campaign_name = cn, ad_name = an, spend = sp,
                         date_start = date, date_stop = date\<rparr>)))"

text \<open>
  One iteration of the loop over \<open>api_data\<close>, on the dict \<open>daily_data\<close>:
  \<open>if not daily_data.get(date): daily_data[date] = []\<close>, then the append.
\<close>

definition process_entry ::
  "(string \<Rightarrow> pyfloat option) \<Rightarrow> string \<Rightarrow> (string \<times> row list) list \<Rightarrow> pyval
     \<Rightarrow> error + (string \<times> row list) list" where
  "process_entry str2f date daily_data entry =
     (let daily_data1 =
            (case map_of daily_data date of
               None \<Rightarrow> dict_set daily_data date []
             | Some rs \<Rightarrow> if rs = [] then dict_set daily_data date [] else daily_data)
      in case make_row str2f date entry of
           Inl e \<Rightarrow> Inl e
         | Inr r \<Rightarrow>
             (case map_of daily_data1 date of
                None \<Rightarrow> Inl (KeyError date)
              | Some rs \<Rightarrow> Inr (dict_set daily_data1 date (rs @ [r]))))"

fun process_loop ::
  "(string \<Rightarrow> pyfloat option) \<Rightarrow> string \<Rightarrow> (string \<times> row list) list \<Rightarrow> pyval list
     \<Rightarrow> error + (string \<times> row list) list" where
  "process_loop str2f date daily_data [] = Inr daily_data"
| "process_loop str2f date daily_data (entry # rest) =
     (case process_entry str2f date daily_data entry of
        Inl e \<Rightarrow> Inl e
      | Inr daily_data' \<Rightarrow> process_loop str2f date daily_data' rest)"

definition process_daily_data ::
  "(string \<Rightarrow> pyfloat option) \<Rightarrow> string \<Rightarrow> pyval list \<Rightarrow> error + (string \<times> row list) list" where
  "process_daily_data str2f date api_data = process_loop str2f date [] api_data"

section \<open>The ads API as seen by the program\<close>

text \<open>
  An f-string is kept as its pieces: the literal text and the formatted objects.
  \<open>requests.get\<close> receives the URL and the query parameters; it raises, or it gives
  a response with a status code and a body. \<open>raise_for_status\<close> raises for the
  codes 400 to 599, \<open>json\<close> raises when the body is not JSON (\<open>None\<close> here).
  The remote side is any function \<open>get\<close> on a state \<open>'s\<close> of its own.
\<close>

datatype piece = Lit string | Fmt pyval

record request =
  req_url :: "piece list"
  req_params :: "(string \<times> pyval) list"

datatype outcome = Raises error | Response nat "pyval option"

text \<open>
  The state: the remote side, the requests sent to the ads API so far and the
  operations sent to the spreadsheet service so far. The two lists only record the
  calls; the log records of the program have no effect on any result and are left out.
\<close>

datatype a1range = ColRange string string string | CellRange string string nat string nat

datatype sheets_op =
    ValuesGet string a1range
  | ValuesUpdate string a1range string "pyval list list"

record 's world =
  net :: 's
  sent :: "request list"
  calls :: "sheets_op list"

definition http_get_json ::
  "(request \<Rightarrow> 's \<Rightarrow> outcome \<times> 's) \<Rightarrow> request \<Rightarrow> 's world \<Rightarrow> (error + pyval) \<times> 's world" where
  "http_get_json get req w =
     (case get req (net w) of
        (r, n) \<Rightarrow>
          (let w' = w\<lparr>net := n, sent := sent w @ [req]\<rparr> in
           case r of
             Raises e \<Rightarrow> (Inl e, w')
           | Response code body \<Rightarrow>
               if 400 \<le> code \<and> code < 600 then (Inl (HTTPError code), w')
               else (case body of
                       None \<Rightarrow> (Inl JSONDecodeError, w')
                     | Some data \<Rightarrow> (Inr data, w'))))"

text \<open>\<open>k in x\<close>, \<open>x[k]\<close> with a string key and iteration, on the decoded values.\<close>

fun has_sub :: "string \<Rightarrow> string \<Rightarrow> bool" where
  "has_sub p [] = (p = [])"
| "has_sub p (c # cs) = (take (length p) (c # cs) = p \<or> has_sub p cs)"

fun py_in :: "string \<Rightarrow> pyval \<Rightarrow> error + bool" where
  "py_in k (PDict kvs) = Inr (map_of kvs k \<noteq> None)"
| "py_in k (PList xs) = Inr (PStr k \<in> set xs)"
| "py_in k (PStr s) = Inr (has_sub k s)"
| "py_in k _ = Inl TypeError"

fun py_subscript :: "pyval \<Rightarrow> string \<Rightarrow> error + pyval" where
  "py_subscript (PDict kvs) k = (case map_of kvs k of None \<Rightarrow> Inl (KeyError k) | Some v \<Rightarrow> Inr v)"
| "py_subscript _ k = Inl TypeError"

fun py_iter :: "pyval \<Rightarrow> error + pyval list" where
  "py_iter (PList xs) = Inr xs"
| "py_iter (PDict kvs) = Inr (map (\<lambda>kv. PStr (fst kv)) kvs)"
| "py_iter (PStr s) = Inr (map (\<lambda>c. PStr [c]) s)"
| "py_iter _ = Inl TypeError"

subsection \<open>Timestamps\<close>

record datetime =
  year :: nat
  month :: nat
  day :: nat
  hour :: nat
  minute :: nat
  second :: nat
  microsecond :: nat
  tzinfo :: "int option"

fun lex_le :: "nat list \<Rightarrow> nat list \<Rightarrow> bool" where
  "lex_le [] ys = True"
| "lex_le (x # xs) [] = False"
| "lex_le (x # xs) (y # ys) = (x < y \<or> (x = y \<and> lex_le xs ys))"

definition dt_fields :: "datetime \<Rightarrow> nat list" where
  "dt_fields d = [year d, month d, day d, hour d, minute d, second d, microsecond d]"

text \<open>\<open>a >= b\<close> on two naive datetimes.\<close>

definition dt_ge :: "datetime \<Rightarrow> datetime \<Rightarrow> bool" where
  "dt_ge a b = lex_le (dt_fields b) (dt_fields a)"

definition CUTOFF_DATE :: datetime where
  "CUTOFF_DATE = \<lparr>year = 2024, month = 9, day = 1, hour = 0, minute = 0, second = 0,
                  microsecond = 0, tzinfo = None\<rparr>"

definition API_VERSION :: string where
  "API_VERSION = ''v17.0''"

definition MAX_RETRIES :: nat where
  "MAX_RETRIES = 3"

section \<open>The retry decorator\<close>

text \<open>
  \<open>@retry(stop=stop_after_attempt(n), wait=...)\<close> of the tenacity library, with its
  defaults: every exception of the body is retried; after the failed attempt number
  \<open>n\<close> a RetryError that carries the last exception is raised (\<open>reraise\<close> is off).
  Attempts are numbered from 1 and the number of the last attempt is returned with the
  result, as the library keeps it in its statistics. The waiting between attempts
  takes time only and is left out. A body that does not return is \<open>None\<close>.
\<close>

function retry_call ::
  "nat \<Rightarrow> nat \<Rightarrow> ('w \<Rightarrow> ((error + 'a) \<times> 'w) option) \<Rightarrow> 'w
     \<Rightarrow> ((error + 'a) \<times> nat \<times> 'w) option" where
  "retry_call stop attempt_number body w =
     (case body w of
        None \<Rightarrow> None
      | Some (Inr v, w') \<Rightarrow> Some (Inr v, attempt_number, w')
      | Some (Inl e, w') \<Rightarrow>
          if stop \<le> attempt_number then Some (Inl (RetryError e), attempt_number, w')
          else retry_call stop (Suc attempt_number) body w')"
  by pat_completeness auto
termination
  by (relation "measure (\<lambda>(stop, attempt_number, body, w). stop - attempt_number)") auto

declare retry_call.simps [simp del]

definition retry :: "('w \<Rightarrow> ((error + 'a) \<times> 'w) option) \<Rightarrow> 'w \<Rightarrow> ((error + 'a) \<times> 'w) option" where
  "retry body w =
     (case retry_call MAX_RETRIES 1 body w of
        None \<Rightarrow> None
      | Some (r, attempts, w') \<Rightarrow> Some (r, w'))"

section \<open>The creation-time lookup\<close>

text \<open>
  The body of \<open>fetch_ad_creation_time\<close>. \<open>isoparse\<close> of dateutil is a parameter; the
  timezone of its result is dropped by \<open>replace(tzinfo=None)\<close>. Every exception raised
  inside the \<open>try\<close> is raised again by the handler.
\<close>

definition creation_time_request :: "pyval \<Rightarrow> string \<Rightarrow> request" where
  "creation_time_request ad_id access_token =
     \<lparr>req_url = [Lit (''https://graph.facebook.com/'' @ API_VERSION @ ''/''), Fmt ad_id],
      req_params = [(''fields'', PStr ''created_time''), (''access_token'', PStr access_token)]\<rparr>"

definition fetch_ad_creation_time_body ::
  "(request \<Rightarrow> 's \<Rightarrow> outcome \<times> 's) \<Rightarrow> (pyval \<Rightarrow> error + datetime) \<Rightarrow> pyval \<Rightarrow> string
     \<Rightarrow> 's world \<Rightarrow> (error + datetime option) \<times> 's world" where
  "fetch_ad_creation_time_body get isoparse ad_id access_token w =
     (case http_get_json get (creation_time_request ad_id access_token) w of
        (Inl e, w1) \<Rightarrow> (Inl e, w1)
      | (Inr data, w1) \<Rightarrow>
          (case py_in ''error'' data of
             Inl e \<Rightarrow> (Inl e, w1)
           | Inr True \<Rightarrow>
               (case py_subscript data ''error'' of
                  Inl e \<Rightarrow> (Inl e, w1)
                | Inr err \<Rightarrow> (Inr None, w1))
           | Inr False \<Rightarrow>
               (case py_get data ''created_time'' PNone of
                  Inl e \<Rightarrow> (Inl e, w1)
                | Inr created_str \<Rightarrow>
                    if \<not> truthy created_str then (Inr None, w1)
                    else (case isoparse created_str of
                            Inl e \<Rightarrow> (Inl e, w1)
                          | Inr dt \<Rightarrow> (Inr (Some (dt\<lparr>tzinfo := None\<rparr>)), w1)))))"

definition fetch_ad_creation_time ::
  "(request \<Rightarrow> 's \<Rightarrow> outcome \<times> 's) \<Rightarrow> (pyval \<Rightarrow> error + datetime) \<Rightarrow> pyval \<Rightarrow> string
     \<Rightarrow> 's world \<Rightarrow> ((error + datetime option) \<times> 's world) option" where
  "fetch_ad_creation_time get isoparse ad_id access_token =
     retry (\<lambda>w. Some (fetch_ad_creation_time_body get isoparse ad_id access_token w))"

section \<open>The paged listing fetch\<close>

text \<open>\<open>created_dt and created_dt >= CUTOFF_DATE\<close>; a datetime object is always true.\<close>

definition keeps :: "datetime option \<Rightarrow> bool" where
  "keeps created_dt = (case created_dt of None \<Rightarrow> False | Some dt \<Rightarrow> dt_ge dt CUTOFF_DATE)"

text \<open>The loop \<open>for ad in page_data\<close>, on the list \<open>all_data\<close>.\<close>

fun filter_page ::
  "(request \<Rightarrow> 's \<Rightarrow> outcome \<times> 's) \<Rightarrow> (pyval \<Rightarrow> error + datetime) \<Rightarrow> string \<Rightarrow> pyval list
     \<Rightarrow> pyval list \<Rightarrow> 's world \<Rightarrow> ((error + pyval list) \<times> 's world) option" where
  "filter_page get isoparse access_token [] all_data w = Some (Inr all_data, w)"
| "filter_page get isoparse access_token (ad # rest) all_data w =
     (case py_get ad ''ad_id'' PNone of
        Inl e \<Rightarrow> Some (Inl e, w)
      | Inr ad_id \<Rightarrow>
          if truthy ad_id then
            (case fetch_ad_creation_time get isoparse ad_id access_token w of
               None \<Rightarrow> None
             | Some (Inl e, w1) \<Rightarrow> Some (Inl e, w1)
             | Some (Inr created_dt, w1) \<Rightarrow>
                 if keeps created_dt
                 then filter_page get isoparse access_token rest (all_data @ [ad]) w1
                 else filter_page get isoparse access_token rest all_data w1)
          else filter_page get isoparse access_token rest all_data w)"

text \<open>
  One pass of \<open>while next_page\<close>. Each iteration takes one unit of \<open>fuel\<close>; the
  result is \<open>None\<close> when the fuel ends before the loop does. An exception inside the
  \<open>try\<close> is raised again by the handler, which ends the pass.
\<close>

definition page_failed :: "error \<Rightarrow> 's world \<Rightarrow> ((error + pyval list) \<times> 's world) option" where
  "page_failed e w = Some (Inl e, w)"

definition page_next :: "pyval \<Rightarrow> error + pyval" where
  "page_next data =
     (case py_get data ''paging'' (PDict []) of
        Inl e \<Rightarrow> Inl e
      | Inr paging \<Rightarrow> py_get paging ''next'' PNone)"

fun fetch_pages ::
  "nat \<Rightarrow> (request \<Rightarrow> 's \<Rightarrow> outcome \<times> 's) \<Rightarrow> (pyval \<Rightarrow> error + datetime) \<Rightarrow> string \<Rightarrow> pyval
     \<Rightarrow> (string \<times> pyval) list \<Rightarrow> pyval list \<Rightarrow> 's world
     \<Rightarrow> ((error + pyval list) \<times> 's world) option" where
  "fetch_pages 0 get isoparse access_token next_page params all_data w =
     (if truthy next_page then None else Some (Inr all_data, w))"
| "fetch_pages (Suc fuel) get isoparse access_token next_page params all_data w =
     (if \<not> truthy next_page then Some (Inr all_data, w)
      else
        (case http_get_json get \<lparr>req_url = [Fmt next_page], req_params = params\<rparr> w of
           (Inl e, w1) \<Rightarrow> page_failed e w1
         | (Inr data, w1) \<Rightarrow>
             (case py_in ''error'' data of
                Inl e \<Rightarrow> page_failed e w1
              | Inr True \<Rightarrow>
                  (case py_subscript data ''error'' of
                     Inl e \<Rightarrow> page_failed e w1
                   | Inr err \<Rightarrow> page_failed (FacebookAdsError err) w1)
              | Inr False \<Rightarrow>
                  (case py_get data ''data'' (PList []) of
                     Inl e \<Rightarrow> page_failed e w1
                   | Inr page_data \<Rightarrow>
                       (case py_iter page_data of
                          Inl e \<Rightarrow> page_failed e w1
                        | Inr ads \<Rightarrow>
                            (case filter_page get isoparse access_token ads all_data w1 of
                               None \<Rightarrow> None
                             | Some (Inl e, w2) \<Rightarrow> page_failed e w2
                             | Some (Inr all_data', w2) \<Rightarrow>
                                 (case page_next data of
                                    Inl e \<Rightarrow> page_failed e w2
                                  | Inr next_page' \<Rightarrow>
                                      if truthy next_page'
                                      then fetch_pages fuel get isoparse access_token
                                             next_page' [] all_data' w2
                                      else fetch_pages fuel get isoparse access_token
                                             next_page' params all_data' w2)))))))"

text \<open>
  The body of \<open>fetch_api_data\<close>. The target date has only digits and dashes, so
  \<open>json.dumps\<close> of the time range is the concatenation below.
\<close>

definition time_range :: "string \<Rightarrow> string" where
  "time_range d =
     [CHR ''{'', CHR 0x22] @ ''since'' @ [CHR 0x22] @ '': '' @ [CHR 0x22] @ d @ [CHR 0x22] @
     '', '' @ [CHR 0x22] @ ''until'' @ [CHR 0x22] @ '': '' @ [CHR 0x22] @ d @ [CHR 0x22, CHR ''}'']"

definition insights_url :: "string \<Rightarrow> string" where
  "insights_url ad_account_id =
     ''https://graph.facebook.com/'' @ API_VERSION @ ''/act_'' @ ad_account_id @ ''/insights''"

definition insights_params :: "string \<Rightarrow> string \<Rightarrow> (string \<times> pyval) list" where
  "insights_params YESTERDAY_DATE access_token =
     [(''fields'', PStr ''campaign_name,ad_name,spend,ad_id''),
      (''access_token'', PStr access_token),
      (''level'', PStr ''ad''),
      (''time_range'', PStr (time_range YESTERDAY_DATE)),
      (''limit'', PInt 5000)]"

definition fetch_api_data_body ::
  "nat \<Rightarrow> (request \<Rightarrow> 's \<Rightarrow> outcome \<times> 's) \<Rightarrow> (pyval \<Rightarrow> error + datetime) \<Rightarrow> string
     \<Rightarrow> (string \<times> string) list \<Rightarrow> 's world \<Rightarrow> ((error + pyval list) \<times> 's world) option" where
  "fetch_api_data_body fuel get isoparse YESTERDAY_DATE config w =
     (case map_of config ''accessToken'' of
        None \<Rightarrow> Some (Inl (KeyError ''accessToken''), w)
      | Some access_token \<Rightarrow>
          (case map_of config ''adAccountId'' of
             None \<Rightarrow> Some (Inl (KeyError ''adAccountId''), w)
           | Some ad_account_id \<Rightarrow>
               fetch_pages fuel get isoparse access_token
                 (PStr (insights_url ad_account_id))
                 (insights_params YESTERDAY_DATE access_token) [] w))"

definition fetch_api_data ::
  "nat \<Rightarrow> (request \<Rightarrow> 's \<Rightarrow> outcome \<times> 's) \<Rightarrow> (pyval \<Rightarrow> error + datetime) \<Rightarrow> string
     \<Rightarrow> (string \<times> string) list \<Rightarrow> 's world \<Rightarrow> ((error + pyval list) \<times> 's world) option" where
  "fetch_api_data fuel get isoparse YESTERDAY_DATE config =
     retry (fetch_api_data_body fuel get isoparse YESTERDAY_DATE config)"

section \<open>The Sheet Writer\<close>

text \<open>
  A range in A1 notation is kept with its parts: \<open>CellRange t c1 r1 c2 r2\<close> is the
  f-string \<open>{t}!{c1}{r1}:{c2}{r2}\<close> and \<open>ColRange t c1 c2\<close> is \<open>{t}!{c1}:{c2}\<close>.
  Both ends of a range belong to it. The spreadsheet service is any function
  \<open>execute\<close> on the remote state.
\<close>

fun digit :: "nat \<Rightarrow> char" where
  "digit n = (''0123456789'' ! (n mod 10))"

function str_nat :: "nat \<Rightarrow> string" where
  "str_nat n = (if n < 10 then [digit n] else str_nat (n div 10) @ [digit n])"
  by pat_completeness auto
termination
  by (relation "measure id") auto

declare str_nat.simps [simp del]

fun a1_notation :: "a1range \<Rightarrow> string" where
  "a1_notation (ColRange t c1 c2) = t @ ''!'' @ c1 @ '':'' @ c2"
| "a1_notation (CellRange t c1 r1 c2 r2) = t @ ''!'' @ c1 @ str_nat r1 @ '':'' @ c2 @ str_nat r2"

fun first_row :: "a1range \<Rightarrow> nat" where
  "first_row (CellRange t c1 r1 c2 r2) = r1"
| "first_row (ColRange t c1 c2) = 1"

text \<open>The number of rows of a range that names its rows.\<close>

fun rows_spanned :: "a1range \<Rightarrow> nat" where
  "rows_spanned (CellRange t c1 r1 c2 r2) = Suc r2 - r1"
| "rows_spanned (ColRange t c1 c2) = 0"

definition sheets_execute ::
  "(sheets_op \<Rightarrow> 's \<Rightarrow> (error + pyval) \<times> 's) \<Rightarrow> sheets_op \<Rightarrow> 's world
     \<Rightarrow> (error + pyval) \<times> 's world" where
  "sheets_execute execute op w =
     (case execute op (net w) of (r, n) \<Rightarrow> (r, w\<lparr>net := n, calls := calls w @ [op]\<rparr>))"

definition get_next_empty_row ::
  "(sheets_op \<Rightarrow> 's \<Rightarrow> (error + pyval) \<times> 's) \<Rightarrow> string \<Rightarrow> string \<Rightarrow> 's world
     \<Rightarrow> (error + nat) \<times> 's world" where
  "get_next_empty_row execute spreadsheet_id tab_name w =
     (case sheets_execute execute (ValuesGet spreadsheet_id (ColRange tab_name ''A'' ''A'')) w of
        (Inl e, w1) \<Rightarrow> (Inl e, w1)
      | (Inr result, w1) \<Rightarrow>
          (case py_get result ''values'' (PList []) of
             Inl e \<Rightarrow> (Inl e, w1)
           | Inr vals \<Rightarrow>
               (case py_iter vals of
                  Inl e \<Rightarrow> (Inl e, w1)
                | Inr vs \<Rightarrow> (Inr (length vs + 1), w1))))"

definition sheet_row :: "string \<Rightarrow> row \<Rightarrow> pyval list" where
  "sheet_row date entry =
     [PStr date, campaign_name entry, ad_name entry, spend entry,
      PStr (date_start entry), PStr (date_stop entry)]"

definition sheet_rows :: "(string \<times> row list) list \<Rightarrow> pyval list list" where
  "sheet_rows data = concat (map (\<lambda>(date, entries). map (sheet_row date) entries) data)"

definition write_to_sheets ::
  "(sheets_op \<Rightarrow> 's \<Rightarrow> (error + pyval) \<times> 's) \<Rightarrow> string \<Rightarrow> (string \<times> row list) list \<Rightarrow> 's world
     \<Rightarrow> (error + unit) \<times> 's world" where
  "write_to_sheets execute SPREADSHEET_ID data w =
     (let rows = sheet_rows data in
      if rows = [] then (Inr (), w)
      else
        (case get_next_empty_row execute SPREADSHEET_ID ''Sheet1'' w of
           (Inl e, w1) \<Rightarrow> (Inl e, w1)
         | (Inr next_row, w1) \<Rightarrow>
             (case sheets_execute execute
                     (ValuesUpdate SPREADSHEET_ID
                        (CellRange ''Sheet1'' ''A'' next_row ''F'' (next_row + length rows))
                        ''RAW'' rows) w1 of
                (Inl e, w2) \<Rightarrow> (Inl e, w2)
              | (Inr result, w2) \<Rightarrow> (Inr (), w2))))"

section \<open>The sync endpoint\<close>

text \<open>
  The two setup stages read local files. \<open>config_file\<close> is \<open>None\<close> when the file is
  absent, else what opening and decoding it gives; \<open>creds_file\<close> likewise for the
  credentials and the construction of the client.
\<close>

definition load_config :: "(error + (string \<times> string) list) option \<Rightarrow> error + (string \<times> string) list" where
  "load_config config_file =
     (case config_file of
        None \<Rightarrow> Inl (FileNotFoundError ''passkeys.json'')
      | Some (Inl e) \<Rightarrow> Inl e
      | Some (Inr config) \<Rightarrow>
          if [key \<leftarrow> [''accessToken'', ''adAccountId'']. map_of config key = None] \<noteq> []
          then Inl ValueError else Inr config)"

definition init_sheets_api :: "(error + unit) option \<Rightarrow> error + unit" where
  "init_sheets_api creds_file =
     (case creds_file of
        None \<Rightarrow> Inl (FileNotFoundError ''zeta-environs-448616-m0-cb4f0707f662.json'')
      | Some r \<Rightarrow> r)"

text \<open>The JSON response; \<open>str(e)\<close> of an exception is kept as the exception.\<close>

datatype jsonstr = Text string | StrOf error

record response =
  json_body :: "(string \<times> jsonstr) list"
  status_code :: nat

definition success_response :: response where
  "success_response =
     \<lparr>json_body = [(''status'', Text ''success''), (''message'', Text ''Data sync completed'')],
      status_code = 200\<rparr>"

definition error_response :: "error \<Rightarrow> response" where
  "error_response e =
     \<lparr>json_body = [(''status'', Text ''error''), (''message'', StrOf e)], status_code = 500\<rparr>"

text \<open>The statements of the \<open>try\<close> block of \<open>sync_data\<close>, up to the first exception.\<close>

definition sync_pipeline ::
  "nat \<Rightarrow> (request \<Rightarrow> 's \<Rightarrow> outcome \<times> 's) \<Rightarrow> (pyval \<Rightarrow> error + datetime)
     \<Rightarrow> (string \<Rightarrow> pyfloat option) \<Rightarrow> (sheets_op \<Rightarrow> 's \<Rightarrow> (error + pyval) \<times> 's)
     \<Rightarrow> string \<Rightarrow> string \<Rightarrow> (error + (string \<times> string) list) option \<Rightarrow> (error + unit) option
     \<Rightarrow> 's world \<Rightarrow> ((error + unit) \<times> 's world) option" where
  "sync_pipeline fuel get isoparse str2f execute YESTERDAY_DATE SPREADSHEET_ID
     config_file creds_file w =
     (case load_config config_file of
        Inl e \<Rightarrow> Some (Inl e, w)
      | Inr config \<Rightarrow>
          (case init_sheets_api creds_file of
             Inl e \<Rightarrow> Some (Inl e, w)
           | Inr sheets \<Rightarrow>
               (case fetch_api_data fuel get isoparse YESTERDAY_DATE config w of
                  None \<Rightarrow> None
                | Some (Inl e, w1) \<Rightarrow> Some (Inl e, w1)
                | Some (Inr api_data, w1) \<Rightarrow>
                    (case process_daily_data str2f YESTERDAY_DATE api_data of
                       Inl e \<Rightarrow> Some (Inl e, w1)
                     | Inr daily_data \<Rightarrow>
                         Some (write_to_sheets execute SPREADSHEET_ID daily_data w1)))))"

definition sync_data ::
  "nat \<Rightarrow> (request \<Rightarrow> 's \<Rightarrow> outcome \<times> 's) \<Rightarrow> (pyval \<Rightarrow> error + datetime)
     \<Rightarrow> (string \<Rightarrow> pyfloat option) \<Rightarrow> (sheets_op \<Rightarrow> 's \<Rightarrow> (error + pyval) \<times> 's)
     \<Rightarrow> string \<Rightarrow> string \<Rightarrow> (error + (string \<times> string) list) option \<Rightarrow> (error + unit) option
     \<Rightarrow> 's world \<Rightarrow> (response \<times> 's world) option" where
  "sync_data fuel get isoparse str2f execute YESTERDAY_DATE SPREADSHEET_ID
     config_file creds_file w =
     (case sync_pipeline fuel get isoparse str2f execute YESTERDAY_DATE SPREADSHEET_ID
             config_file creds_file w of
        None \<Rightarrow> None
      | Some (Inr u, w1) \<Rightarrow> Some (success_response, w1)
      | Some (Inl e, w1) \<Rightarrow> Some (error_response e, w1))"

section \<open>Counting and example environments\<close>

text \<open>
  A page request is a request whose URL is the object \<open>next_page\<close> itself; the URL
  of a lookup is built by an f-string.
\<close>

fun is_page_request :: "request \<Rightarrow> bool" where
  "is_page_request r = (case req_url r of [Fmt u] \<Rightarrow> True | _ \<Rightarrow> False)"

definition page_requests :: "'s world \<Rightarrow> nat" where
  "page_requests w = length (filter is_page_request (sent w))"

text \<open>
  The rows that receive the values of an update: the service fills the values in from
  the first row of the range, one row of the sheet for each row of values.
\<close>

fun rows_written :: "sheets_op \<Rightarrow> nat list" where
  "rows_written (ValuesUpdate sid rng opt vals) = [first_row rng ..< first_row rng + length vals]"
| "rows_written (ValuesGet sid rng) = []"

text \<open>
  The environments of the examples. The remote state is a counter of the calls
  received. \<open>fixed_isoparse\<close> reads the two timestamps of the examples.
\<close>

definition world0 :: "nat world" where
  "world0 = \<lparr>net = 0, sent = [], calls = []\<rparr>"

definition fixed_isoparse :: "pyval \<Rightarrow> error + datetime" where
  "fixed_isoparse v =
     (if v = PStr ''2024-10-05T08:30:00+0000''
      then Inr \<lparr>year = 2024, month = 10, day = 5, hour = 8, minute = 30, second = 0,
                microsecond = 0, tzinfo = Some 0\<rparr>
      else if v = PStr ''2023-01-15T12:00:00+0000''
      then Inr \<lparr>year = 2023, month = 1, day = 15, hour = 12, minute = 0, second = 0,
                microsecond = 0, tzinfo = Some 0\<rparr>
      else Inl ValueError)"

definition fixed_str2f :: "string \<Rightarrow> pyfloat option" where
  "fixed_str2f s = (if s = ''12.5'' then Some (Fin 12.5) else None)"

definition down_get :: "request \<Rightarrow> nat \<Rightarrow> outcome \<times> nat" where
  "down_get req n = (Raises (RequestException ''timed out''), Suc n)"

definition flaky_get :: "request \<Rightarrow> nat \<Rightarrow> outcome \<times> nat" where
  "flaky_get req n =
     (if n < 2 then Raises (RequestException ''timed out'')
      else Response 200 (Some (PDict [(''created_time'', PStr ''2024-10-05T08:30:00+0000'')])),
      Suc n)"

definition sheet_service :: "pyval list \<Rightarrow> sheets_op \<Rightarrow> nat \<Rightarrow> (error + pyval) \<times> nat" where
  "sheet_service column_a op n =
     (case op of
        ValuesGet sid rng \<Rightarrow>
          (Inr (PDict (if column_a = [] then [] else [(''values'', PList column_a)])), Suc n)
      | ValuesUpdate sid rng opt vals \<Rightarrow> (Inr (PDict []), Suc n))"

definition one_row :: "(string \<times> row list) list" where
  "one_row =
     [(''2024-10-31'',
       [\<lparr>campaign_name = PStr ''C'', ad_name = PStr ''N'', spend = PFloat (Fin 12.5),
         date_start = ''2024-10-31'', date_stop = ''2024-10-31''\<rparr>])]"

text \<open>
  The rows of column A as a read returns them: the list ends with the last row that has
  a cell in column A, and a row above it with no cell there is the empty list. The
  count of the non-empty rows leaves those out.
\<close>

definition non_empty_rows :: "pyval list \<Rightarrow> nat" where
  "non_empty_rows vs = length (filter truthy vs)"

definition column_with_gap :: "pyval list" where
  "column_with_gap = [PList [PStr ''a''], PList [], PList [PStr ''c'']]"

text \<open>A record of the listing as the ads API gives it, and one with a spend too large.\<close>

definition ad_new :: pyval where
  "ad_new =
     PDict [(''campaign_name'', PStr ''C''), (''ad_name'', PStr ''N''),
            (''spend'', PStr ''12.5''), (''ad_id'', PStr ''A1'')]"

definition ad_huge :: pyval where
  "ad_huge =
     PDict [(''campaign_name'', PStr ''D''), (''ad_name'', PStr ''M''),
            (''spend'', PInt (10 ^ 400)), (''ad_id'', PStr ''A4'')]"

section \<open>Page chains and servers of the examples\<close>

text \<open>
  \<open>replies get req data\<close>: the server answers the request \<open>req\<close> with the body
  \<open>data\<close> and a status code that is not an error, in every state of its own.
  \<open>page_chain get u ps pages\<close>: requested at \<open>u\<close> with the parameters \<open>ps\<close> the
  server answers with the first page of the list; each page but the last gives under
  \<open>paging.next\<close> a URL at which, with no parameters, the rest of the list is served in
  the same way; the last page gives none.
\<close>

definition replies :: "(request \<Rightarrow> 's \<Rightarrow> outcome \<times> 's) \<Rightarrow> request \<Rightarrow> pyval \<Rightarrow> bool" where
  "replies get req data =
     (\<forall>s. \<exists>code. fst (get req s) = Response code (Some data) \<and> \<not> (400 \<le> code \<and> code < 600))"

fun page_chain ::
  "(request \<Rightarrow> 's \<Rightarrow> outcome \<times> 's) \<Rightarrow> pyval \<Rightarrow> (string \<times> pyval) list \<Rightarrow> pyval list \<Rightarrow> bool" where
  "page_chain get u ps [] = False"
| "page_chain get u ps [p] =
     (replies get \<lparr>req_url = [Fmt u], req_params = ps\<rparr> p \<and>
      (\<exists>nx. page_next p = Inr nx \<and> \<not> truthy nx))"
| "page_chain get u ps (p # q # pages) =
     (replies get \<lparr>req_url = [Fmt u], req_params = ps\<rparr> p \<and>
      (\<exists>nx. page_next p = Inr nx \<and> truthy nx \<and> page_chain get nx [] (q # pages)))"

text \<open>
  The lookup for \<open>ad_id\<close> returns \<open>created_dt\<close> (a timestamp or \<open>None\<close>), in every state.
\<close>

definition lookup_gives ::
  "(request \<Rightarrow> 's \<Rightarrow> outcome \<times> 's) \<Rightarrow> (pyval \<Rightarrow> error + datetime) \<Rightarrow> string \<Rightarrow> pyval
     \<Rightarrow> datetime option \<Rightarrow> bool" where
  "lookup_gives get isoparse access_token ad_id created_dt =
     (\<forall>w. \<exists>w'. fetch_ad_creation_time get isoparse ad_id access_token w =
                 Some (Inr created_dt, w'))"

text \<open>
  A listing page: a dict with no key \<open>error\<close> whose \<open>data\<close>, if any, is a list of
  dicts, the records of the page. The identifier of a record is its \<open>ad_id\<close>.
\<close>

fun is_dict :: "pyval \<Rightarrow> bool" where
  "is_dict (PDict kvs) = True"
| "is_dict v = False"

fun page_records :: "pyval \<Rightarrow> pyval list" where
  "page_records (PDict kvs) =
     (case map_of kvs ''data'' of None \<Rightarrow> [] | Some (PList ads) \<Rightarrow> ads | Some v \<Rightarrow> [])"
| "page_records v = []"

fun listing_page :: "pyval \<Rightarrow> bool" where
  "listing_page (PDict kvs) =
     (map_of kvs ''error'' = None \<and>
      (case map_of kvs ''data'' of
         None \<Rightarrow> True
       | Some (PList ads) \<Rightarrow> list_all is_dict ads
       | Some v \<Rightarrow> False))"
| "listing_page v = False"

fun record_id :: "pyval \<Rightarrow> pyval" where
  "record_id (PDict kvs) = (case map_of kvs ''ad_id'' of None \<Rightarrow> PNone | Some v \<Rightarrow> v)"
| "record_id v = PNone"

text \<open>
  The records that the listing fetch is to keep, given what the lookup returns for each
  identifier: those with a non-empty identifier whose lookup returns a timestamp on or
  after the cutoff date.
\<close>

definition included :: "(pyval \<Rightarrow> datetime option) \<Rightarrow> pyval \<Rightarrow> bool" where
  "included lk ad =
     (truthy (record_id ad) \<and>
      (case lk (record_id ad) of None \<Rightarrow> False | Some dt \<Rightarrow> dt_ge dt CUTOFF_DATE))"

text \<open>
  The ads API of the examples: a listing of two pages and the lookups of the
  identifiers \<open>A1\<close> (created after the cutoff date), \<open>A2\<close> (created before it) and of
  any other identifier (an error envelope).
\<close>

definition ad_old :: pyval where
  "ad_old =
     PDict [(''campaign_name'', PStr ''C''), (''ad_name'', PStr ''O''),
            (''spend'', PStr ''3''), (''ad_id'', PStr ''A2'')]"

definition ad_gone :: pyval where
  "ad_gone =
     PDict [(''campaign_name'', PStr ''C''), (''ad_name'', PStr ''G''),
            (''spend'', PStr ''7''), (''ad_id'', PStr ''A3'')]"

definition ad_noid :: pyval where
  "ad_noid = PDict [(''campaign_name'', PStr ''C''), (''ad_name'', PStr ''X'')]"

definition page1 :: pyval where
  "page1 =
     PDict [(''data'', PList [ad_new, ad_old]),
            (''paging'', PDict [(''next'', PStr ''https://graph.facebook.com/p2'')])]"

definition page2 :: pyval where
  "page2 = PDict [(''data'', PList [ad_gone, ad_noid]), (''paging'', PDict [])]"


definition listing_reply :: "pyval \<Rightarrow> pyval" where
  "listing_reply u = (if u = PStr ''https://graph.facebook.com/p2'' then page2 else page1)"

definition lookup_reply :: "pyval \<Rightarrow> pyval" where
  "lookup_reply ad_id =
     (if ad_id = PStr ''A1'' then PDict [(''created_time'', PStr ''2024-10-05T08:30:00+0000'')]
      else if ad_id = PStr ''A2'' then PDict [(''created_time'', PStr ''2023-01-15T12:00:00+0000'')]
      else PDict [(''error'', PDict [(''message'', PStr ''Unsupported get request'')])])"

definition static_get :: "request \<Rightarrow> nat \<Rightarrow> outcome \<times> nat" where
  "static_get req n =
     (case req_url req of
        [Fmt u] \<Rightarrow> Response 200 (Some (listing_reply u))
      | [Lit l, Fmt ad_id] \<Rightarrow> Response 200 (Some (lookup_reply ad_id))
      | _ \<Rightarrow> Response 404 None,
      Suc n)"

definition static_created :: "pyval \<Rightarrow> datetime option" where
  "static_created ad_id =
     (if ad_id = PStr ''A1''
      then Some \<lparr>year = 2024, month = 10, day = 5, hour = 8, minute = 30, second = 0,
                 microsecond = 0, tzinfo = None\<rparr>
      else if ad_id = PStr ''A2''
      then Some \<lparr>year = 2023, month = 1, day = 15, hour = 12, minute = 0, second = 0,
                 microsecond = 0, tzinfo = None\<rparr>
      else None)"

text \<open>The same listing, with every lookup but that of \<open>A1\<close> timing out.\<close>

definition partly_down_get :: "request \<Rightarrow> nat \<Rightarrow> outcome \<times> nat" where
  "partly_down_get req n =
     (case req_url req of
        [Fmt u] \<Rightarrow> Response 200 (Some (listing_reply u))
      | [Lit l, Fmt ad_id] \<Rightarrow>
          if ad_id = PStr ''A1'' then Response 200 (Some (lookup_reply ad_id))
          else Raises (RequestException ''timed out'')
      | _ \<Rightarrow> Response 404 None,
      Suc n)"


definition example_config :: "(string \<times> string) list" where
  "example_config = [(''accessToken'', ''T''), (''adAccountId'', ''123'')]"

section \<open>Properties of the Processor\<close>

lemma process_loop_rows:
  "process_loop str2f date [(date, rs0)] api_data = Inr m \<longleftrightarrow>
     (\<exists>rows. map (make_row str2f date) api_data = map Inr rows \<and> m = [(date, rs0 @ rows)])"
proof (induction api_data arbitrary: rs0)
  case Nil
  then show ?case by auto
next
  case (Cons entry rest)
  show ?case
  proof (cases "make_row str2f date entry")
    case (Inl e)
    then show ?thesis by (auto simp: process_entry_def Let_def)
  next
    case (Inr r)
    have "process_entry str2f date [(date, rs0)] entry = Inr [(date, rs0 @ [r])]"
      using Inr by (simp add: process_entry_def Let_def)
    then show ?thesis using Cons.IH[of "rs0 @ [r]"] Inr
      by (auto simp: map_eq_Cons_conv Cons_eq_map_conv)
  qed
qed

text \<open>
  The Processor returns a mapping exactly when every record yields a row; the mapping
  then is empty for the empty input and otherwise has the single key of the target
  date, with the rows of the records one for one in the order of the input.
\<close>

lemma process_daily_data_rows_iff:
  "process_daily_data str2f date api_data = Inr m \<longleftrightarrow>
     (\<exists>rows. map (make_row str2f date) api_data = map Inr rows \<and>
        m = (if api_data = [] then [] else [(date, rows)]))"
proof (cases api_data)
  case Nil
  then show ?thesis by (auto simp: process_daily_data_def)
next
  case (Cons entry rest)
  show ?thesis
  proof (cases "make_row str2f date entry")
    case (Inl e)
    then show ?thesis using Cons
      by (auto simp: process_daily_data_def process_entry_def Let_def)
  next
    case (Inr r)
    have "process_entry str2f date [] entry = Inr [(date, [r])]"
      using Inr by (simp add: process_entry_def Let_def)
    then show ?thesis using Cons Inr process_loop_rows[of str2f date "[r]" rest m]
      by (auto simp: process_daily_data_def map_eq_Cons_conv Cons_eq_map_conv)
  qed
qed

text \<open>
  The spend values that the handler covers: a missing key, \<open>None\<close>, a list, a dict
  and a string that is not a number give a spend equal to 0, and a string that is a
  number gives that number.
\<close>

lemma parse_spend_missing: "map_of kvs ''spend'' = None \<Longrightarrow>
    parse_spend str2f (PDict kvs) = Inr (PFloat (Fin 0))"
  by (simp add: parse_spend_def float_of_int_def round53_def nbits.simps)

lemma parse_spend_null: "map_of kvs ''spend'' = Some PNone \<Longrightarrow>
    parse_spend str2f (PDict kvs) = Inr (PInt 0)"
  by (simp add: parse_spend_def)

lemma parse_spend_string: "map_of kvs ''spend'' = Some (PStr s) \<Longrightarrow>
    parse_spend str2f (PDict kvs) =
      (case str2f s of None \<Rightarrow> Inr (PInt 0) | Some f \<Rightarrow> Inr (PFloat f))"
  by (simp add: parse_spend_def split: option.splits)

text \<open>
  Claim C6. The handler does not cover OverflowError: a record whose spend is the
  integer \<open>10^400\<close> makes the Processor raise.
\<close>

theorem process_daily_data_spend_overflow:
  "process_daily_data str2f date [PDict [(''spend'', PInt (10 ^ 400))]] = Inl OverflowError"
  by (simp add: process_daily_data_def process_entry_def make_row_def parse_spend_def
      float_of_int_def)

lemma float_of_int_in_range:
  assumes "\<bar>n\<bar> < 2 ^ 1024 - 2 ^ 970"
  shows "\<exists>f. float_of_int n = Inr f"
proof -
  have "\<not> (2 ^ 1024 - 2 ^ 970 \<le> \<bar>n\<bar>)" using assms by (simp only: not_le)
  then have "float_of_int n = Inr (Fin (real_of_int (round53 n)))"
    unfolding float_of_int_def by (rule if_not_P)
  then show ?thesis by blast
qed

text \<open>
  A record that is a dict yields a row unless its spend is an integer beyond the range
  of a float; the row takes its names from the record and its dates from the target date.
\<close>

lemma make_row_dict:
  assumes "\<forall>n. map_of kvs ''spend'' = Some (PInt n) \<longrightarrow> \<bar>n\<bar> < 2 ^ 1024 - 2 ^ 970"
  shows "\<exists>sp. parse_spend str2f (PDict kvs) = Inr sp \<and>
          make_row str2f date (PDict kvs) =
            Inr \<lparr>campaign_name =
                   (case map_of kvs ''campaign_name'' of None \<Rightarrow> PStr ''Not Available'' | Some v \<Rightarrow> v),
                 ad_name =
                   (case map_of kvs ''ad_name'' of None \<Rightarrow> PStr ''Not Available'' | Some v \<Rightarrow> v),
                 spend = sp, date_start = date, date_stop = date\<rparr>"
proof -
  have "\<exists>sp. parse_spend str2f (PDict kvs) = Inr sp"
  proof (cases "map_of kvs ''spend''")
    case None
    then show ?thesis by (simp add: parse_spend_missing)
  next
    case (Some v)
    show ?thesis
    proof (cases v)
      case (PInt n)
      then obtain f where "float_of_int n = Inr f"
        using assms Some float_of_int_in_range by blast
      then show ?thesis using Some PInt by (simp add: parse_spend_def)
    next
      case (PStr s)
      then show ?thesis using Some by (simp add: parse_spend_string split: option.splits)
    qed (use Some in \<open>simp_all add: parse_spend_def\<close>)
  qed
  then show ?thesis by (auto simp: make_row_def)
qed

lemma process_daily_data_rows:
  assumes "\<forall>entry \<in> set api_data. \<exists>kvs. entry = PDict kvs \<and>
             (\<forall>n. map_of kvs ''spend'' = Some (PInt n) \<longrightarrow> \<bar>n\<bar> < 2 ^ 1024 - 2 ^ 970)"
  shows "\<exists>rows. process_daily_data str2f date api_data =
                   Inr (if api_data = [] then [] else [(date, rows)]) \<and>
                 map (make_row str2f date) api_data = map Inr rows"
proof -
  have "\<forall>entry \<in> set api_data. \<exists>r. make_row str2f date entry = Inr r"
  proof
    fix entry assume "entry \<in> set api_data"
    then obtain kvs where "entry = PDict kvs"
      "\<forall>n. map_of kvs ''spend'' = Some (PInt n) \<longrightarrow> \<bar>n\<bar> < 2 ^ 1024 - 2 ^ 970"
      using assms by blast
    then show "\<exists>r. make_row str2f date entry = Inr r"
      using make_row_dict[of kvs str2f date] by blast
  qed
  then have "\<exists>rows. map (make_row str2f date) api_data = map Inr rows"
  proof (induction api_data)
    case Nil
    then show ?case by simp
  next
    case (Cons entry rest)
    then obtain r rows where "make_row str2f date entry = Inr r"
        "map (make_row str2f date) rest = map Inr rows" by auto
    then have "map (make_row str2f date) (entry # rest) = map Inr (r # rows)" by simp
    then show ?case by blast
  qed
  then show ?thesis using process_daily_data_rows_iff[of str2f date api_data] by blast
qed

text \<open>
  Claim C10. A record whose spend is the integer \<open>10^400\<close> makes the Processor raise
  (the handler does not cover OverflowError), and the record before it, which alone
  gives its row, gets no row: the output does not hold one row per record.
\<close>

theorem process_daily_data_record_dropped:
  "process_daily_data fixed_str2f ''2024-10-31'' [ad_new] = Inr one_row
   \<and> process_daily_data fixed_str2f ''2024-10-31'' [ad_new, ad_huge] = Inl OverflowError"
  by (simp add: process_daily_data_def process_entry_def make_row_def parse_spend_def
      float_of_int_def fixed_str2f_def ad_new_def ad_huge_def one_row_def)

section \<open>Properties of the retry decorator\<close>

lemma retry_call_fail:
  "body w = Some (Inl e, w') \<Longrightarrow> n < stop \<Longrightarrow>
     retry_call stop n body w = retry_call stop (Suc n) body w'"
  by (subst retry_call.simps) simp

lemma retry_call_last:
  "body w = Some (Inl e, w') \<Longrightarrow> stop \<le> n \<Longrightarrow>
     retry_call stop n body w = Some (Inl (RetryError e), n, w')"
  by (subst retry_call.simps) simp

lemma retry_call_ok:
  "body w = Some (Inr v, w') \<Longrightarrow> retry_call stop n body w = Some (Inr v, n, w')"
  by (subst retry_call.simps) simp

text \<open>
  A call under the decorator returns when its body always returns; what the body leaves
  unchanged the call leaves unchanged; and what the call returns is what one run of the
  body returned, an exception being wrapped in a RetryError.
\<close>

lemma retry_call_total:
  "(\<And>w. body w \<noteq> None) \<Longrightarrow> retry_call stop n body w \<noteq> None"
proof (induction stop n body w rule: retry_call.induct)
  case (1 stop n body w)
  obtain r w' where b: "body w = Some (r, w')"
    using 1(2)[of w] by (cases "body w") auto
  show ?case
  proof (cases r)
    case (Inl e)
    show ?thesis
    proof (cases "stop \<le> n")
      case True
      then show ?thesis using b Inl by (subst retry_call.simps) simp
    next
      case False
      have "retry_call stop (Suc n) body w' \<noteq> None"
        using 1(1)[OF b refl Inl False] 1(2) by blast
      then show ?thesis using b Inl False by (subst retry_call.simps) simp
    qed
  next
    case (Inr v)
    then show ?thesis using b by (subst retry_call.simps) simp
  qed
qed

lemma retry_call_preserves:
  "(\<And>w r w'. body w = Some (r, w') \<Longrightarrow> f w' = f w) \<Longrightarrow>
   retry_call stop n body w = Some (r, k, w') \<Longrightarrow> f w' = f w"
proof (induction stop n body w rule: retry_call.induct)
  case (1 stop n body w)
  from 1(3) obtain r0 w0 where b: "body w = Some (r0, w0)"
    by (subst (asm) retry_call.simps) (auto split: option.splits)
  have f0: "f w0 = f w" using 1(2) b by blast
  show ?case
  proof (cases r0)
    case (Inl e)
    show ?thesis
    proof (cases "stop \<le> n")
      case True
      then have "w' = w0" using 1(3) b Inl by (subst (asm) retry_call.simps) simp
      then show ?thesis using f0 by simp
    next
      case False
      have "retry_call stop (Suc n) body w0 = Some (r, k, w')"
        using 1(3) b Inl False by (subst (asm) retry_call.simps) simp
      then have "f w' = f w0" using 1(1)[OF b refl Inl False] 1(2) by blast
      then show ?thesis using f0 by simp
    qed
  next
    case (Inr v)
    then have "w' = w0" using 1(3) b by (subst (asm) retry_call.simps) simp
    then show ?thesis using f0 by simp
  qed
qed



text \<open>
  Claim C7, as stated, fails: when the lookup fails at every attempt, the caller
  receives a RetryError after three requests, not the exception of the last attempt.
\<close>

theorem retry_exhausted_counterexample:
  "fetch_ad_creation_time down_get fixed_isoparse (PStr ''A1'') ''T'' world0 =
     Some (Inl (RetryError (RequestException ''timed out'')),
           \<lparr>net = 3, sent = replicate 3 (creation_time_request (PStr ''A1'') ''T''),
            calls = []\<rparr>)
   \<and> RetryError (RequestException ''timed out'') \<noteq> RequestException ''timed out''"
  by (simp add: fetch_ad_creation_time_def retry_def MAX_RETRIES_def retry_call.simps
      fetch_ad_creation_time_body_def http_get_json_def down_get_def world0_def Let_def
      numeral_3_eq_3)

text \<open>
  Claim C7, amended. For a body under the decorator (both \<open>fetch_ad_creation_time\<close>
  and \<open>fetch_api_data\<close> are \<open>retry\<close> of their bodies): when the first two
  invocations fail, the third invocation is the last one; the call returns its result
  when it succeeds, and a RetryError that carries its exception when it fails.
\<close>

theorem retry_three_attempts:
  assumes "body w0 = Some (Inl e1, w1)" and "body w1 = Some (Inl e2, w2)"
    and "body w2 = Some (r3, w3)"
  shows "retry_call MAX_RETRIES 1 body w0 =
           Some (case r3 of Inl e3 \<Rightarrow> Inl (RetryError e3) | Inr v \<Rightarrow> Inr v, 3, w3)
         \<and> retry body w0 =
           Some (case r3 of Inl e3 \<Rightarrow> Inl (RetryError e3) | Inr v \<Rightarrow> Inr v, w3)"
proof -
  have a: "retry_call 3 1 body w0 = retry_call 3 (Suc 1) body w1"
    using assms(1) by (rule retry_call_fail) simp
  have b: "retry_call 3 (Suc 1) body w1 = retry_call 3 (Suc (Suc 1)) body w2"
    using assms(2) by (rule retry_call_fail) simp
  have c: "retry_call 3 (Suc (Suc 1)) body w2 =
      Some (case r3 of Inl e3 \<Rightarrow> Inl (RetryError e3) | Inr v \<Rightarrow> Inr v, Suc (Suc 1), w3)"
    using assms(3) by (cases r3) (simp_all add: retry_call_last retry_call_ok)
  have "retry_call MAX_RETRIES 1 body w0 =
      Some (case r3 of Inl e3 \<Rightarrow> Inl (RetryError e3) | Inr v \<Rightarrow> Inr v, 3, w3)"
    unfolding MAX_RETRIES_def a b c by simp
  then show ?thesis by (simp add: retry_def)
qed

theorem retry_three_attempts_witness:
  "fetch_ad_creation_time flaky_get fixed_isoparse (PStr ''A1'') ''T'' world0 =
     Some (Inr (Some \<lparr>year = 2024, month = 10, day = 5, hour = 8, minute = 30, second = 0,
                      microsecond = 0, tzinfo = None\<rparr>),
           \<lparr>net = 3, sent = replicate 3 (creation_time_request (PStr ''A1'') ''T''),
            calls = []\<rparr>)"
  using retry_three_attempts
     [of "\<lambda>w. Some (fetch_ad_creation_time_body flaky_get fixed_isoparse (PStr ''A1'') ''T'' w)"
      world0 "RequestException ''timed out''"
      "\<lparr>net = 1, sent = replicate 1 (creation_time_request (PStr ''A1'') ''T''), calls = []\<rparr>"
      "RequestException ''timed out''"
      "\<lparr>net = 2, sent = replicate 2 (creation_time_request (PStr ''A1'') ''T''), calls = []\<rparr>"
      "Inr (Some \<lparr>year = 2024, month = 10, day = 5, hour = 8, minute = 30, second = 0,
                  microsecond = 0, tzinfo = None\<rparr>)"
      "\<lparr>net = 3, sent = replicate 3 (creation_time_request (PStr ''A1'') ''T''), calls = []\<rparr>"]
  by (simp add: fetch_ad_creation_time_def fetch_ad_creation_time_body_def http_get_json_def
      flaky_get_def fixed_isoparse_def world0_def Let_def numeral_2_eq_2 numeral_3_eq_3)

section \<open>Properties of the Sheet Writer\<close>

text \<open>
  Claim C9. With no row to write the writer returns at once: the state, with the
  record of the operations sent, is the one it started from, whatever the service is.
\<close>

theorem write_to_sheets_no_rows:
  "sheet_rows data = [] \<Longrightarrow> write_to_sheets execute sid data w = (Inr (), w)"
  by (simp add: write_to_sheets_def)

theorem write_to_sheets_no_rows_witness:
  "sheet_rows [(''2024-10-31'', [])] = [] \<and>
   write_to_sheets (sheet_service []) ''id'' [(''2024-10-31'', [])] world0 = (Inr (), world0)"
  using write_to_sheets_no_rows [of "[(''2024-10-31'', [])]" "sheet_service []" "''id''" world0]
  by (simp add: sheet_rows_def)

text \<open>
  Claim C5, as stated, fails: the next free row is the number of rows that the read of
  column A returns plus one, not the count of its non-empty rows plus one. With a blank
  row between two filled ones the column has two non-empty rows and the values go to
  row 4, not to row 3.
\<close>

theorem write_to_sheets_blank_row_counterexample:
  "non_empty_rows column_with_gap = 2
   \<and> write_to_sheets (sheet_service column_with_gap) ''id'' one_row world0 =
       (Inr (),
        \<lparr>net = 2, sent = [],
         calls = [ValuesGet ''id'' (ColRange ''Sheet1'' ''A'' ''A''),
                  ValuesUpdate ''id'' (CellRange ''Sheet1'' ''A'' 4 ''F'' 5) ''RAW''
                    (sheet_rows one_row)]\<rparr>)
   \<and> rows_written (ValuesUpdate ''id'' (CellRange ''Sheet1'' ''A'' 4 ''F'' 5) ''RAW''
         (sheet_rows one_row)) = [4]"
  by (simp add: non_empty_rows_def column_with_gap_def write_to_sheets_def
      get_next_empty_row_def sheets_execute_def sheet_service_def world0_def sheet_rows_def
      one_row_def Let_def)

text \<open>
  Claim C5, amended. When the read of column A returns \<open>k\<close> rows (the rows down to the
  last one with a cell in column A, the blank ones above it included) and there are
  \<open>n > 0\<close> rows to write, the writer sends the read and then one update, RAW, whose
  range starts at row \<open>k + 1\<close> and whose values are the \<open>n\<close> rows, so that they go
  to the rows \<open>k + 1\<close> to \<open>k + n\<close>; it returns when the update does and raises what
  the update raises.
\<close>

theorem write_to_sheets_row_placement:
  assumes "execute (ValuesGet sid (ColRange ''Sheet1'' ''A'' ''A'')) (net w) = (Inr result, n1)"
    and "py_get result ''values'' (PList []) = Inr vals"
    and "py_iter vals = Inr vs"
    and "sheet_rows data \<noteq> []"
    and "upd = ValuesUpdate sid
                 (CellRange ''Sheet1'' ''A'' (length vs + 1) ''F''
                    (length vs + 1 + length (sheet_rows data)))
                 ''RAW'' (sheet_rows data)"
    and "execute upd n1 = (r, n2)"
  shows "write_to_sheets execute sid data w =
           (case r of Inl e \<Rightarrow> Inl e | Inr res \<Rightarrow> Inr (),
            w\<lparr>net := n2,
              calls := calls w @ [ValuesGet sid (ColRange ''Sheet1'' ''A'' ''A''), upd]\<rparr>)
         \<and> rows_written upd = [length vs + 1 ..< length vs + 1 + length (sheet_rows data)]"
  using assms
  by (auto simp: write_to_sheets_def get_next_empty_row_def sheets_execute_def Let_def
      split: prod.splits sum.splits)

theorem write_to_sheets_row_placement_witness:
  "write_to_sheets (sheet_service [PList [PStr ''date''], PList [PStr ''x'']]) ''id''
     one_row world0 =
     (Inr (),
      \<lparr>net = 2, sent = [],
       calls = [ValuesGet ''id'' (ColRange ''Sheet1'' ''A'' ''A''),
                ValuesUpdate ''id'' (CellRange ''Sheet1'' ''A'' 3 ''F'' 4) ''RAW''
                  (sheet_rows one_row)]\<rparr>)
   \<and> rows_written (ValuesUpdate ''id'' (CellRange ''Sheet1'' ''A'' 3 ''F'' 4) ''RAW''
         (sheet_rows one_row)) = [3]"
  using write_to_sheets_row_placement
     [of "sheet_service [PList [PStr ''date''], PList [PStr ''x'']]" "''id''" world0
         "PDict [(''values'', PList [PList [PStr ''date''], PList [PStr ''x'']])]" 1
         "PList [PList [PStr ''date''], PList [PStr ''x'']]"
         "[PList [PStr ''date''], PList [PStr ''x'']]" one_row
         "ValuesUpdate ''id'' (CellRange ''Sheet1'' ''A'' 3 ''F'' 4) ''RAW'' (sheet_rows one_row)"
         "Inr (PDict [])" 2]
  by (simp add: sheet_service_def world0_def sheet_rows_def one_row_def)

text \<open>
  Claim C4. On an empty sheet, with one row to write, the range of the update is
  \<open>Sheet1!A1:F2\<close>: two rows for one row of values.
\<close>

theorem write_to_sheets_range_spans_one_more:
  "calls (snd (write_to_sheets (sheet_service []) ''id'' one_row world0)) =
     [ValuesGet ''id'' (ColRange ''Sheet1'' ''A'' ''A''),
      ValuesUpdate ''id'' (CellRange ''Sheet1'' ''A'' 1 ''F'' 2) ''RAW'' (sheet_rows one_row)]
   \<and> length (sheet_rows one_row) = 1
   \<and> rows_spanned (CellRange ''Sheet1'' ''A'' 1 ''F'' 2) = 2
   \<and> a1_notation (CellRange ''Sheet1'' ''A'' 1 ''F'' 2) = ''Sheet1!A1:F2''"
  by (simp add: write_to_sheets_def get_next_empty_row_def sheets_execute_def
      sheet_service_def world0_def sheet_rows_def one_row_def Let_def str_nat.simps)

section \<open>Properties of the creation-time lookup\<close>

text \<open>
  A request adds itself to the requests sent; a lookup sends no page request and always
  returns or raises.
\<close>

lemma http_get_json_world:
  "snd (http_get_json get req w) = w\<lparr>net := snd (get req (net w)), sent := sent w @ [req]\<rparr>"
  by (auto simp: http_get_json_def Let_def split: prod.splits outcome.splits option.splits)

lemma lookup_body_world:
  "snd (fetch_ad_creation_time_body get isoparse ad_id tok w) =
     snd (http_get_json get (creation_time_request ad_id tok) w)"
  by (auto simp: fetch_ad_creation_time_body_def split: prod.splits sum.splits bool.splits)

lemma lookup_body_page_requests:
  "page_requests (snd (fetch_ad_creation_time_body get isoparse ad_id tok w)) = page_requests w"
  by (simp add: lookup_body_world http_get_json_world page_requests_def creation_time_request_def)

lemma lookup_total:
  "\<exists>r w'. fetch_ad_creation_time get isoparse ad_id tok w = Some (r, w')"
proof -
  have "retry_call MAX_RETRIES 1
          (\<lambda>w. Some (fetch_ad_creation_time_body get isoparse ad_id tok w)) w \<noteq> None"
    by (rule retry_call_total) simp
  then show ?thesis
    by (auto simp: fetch_ad_creation_time_def retry_def split: option.splits)
qed

lemma lookup_page_requests:
  assumes "fetch_ad_creation_time get isoparse ad_id tok w = Some (r, w')"
  shows "page_requests w' = page_requests w"
proof -
  from assms obtain k where
    "retry_call MAX_RETRIES 1
       (\<lambda>w. Some (fetch_ad_creation_time_body get isoparse ad_id tok w)) w = Some (r, k, w')"
    by (auto simp: fetch_ad_creation_time_def retry_def split: option.splits)
  then show ?thesis
  proof (rule retry_call_preserves[rotated])
    fix v r0 v'
    assume "Some (fetch_ad_creation_time_body get isoparse ad_id tok v) = Some (r0, v')"
    then have "v' = snd (fetch_ad_creation_time_body get isoparse ad_id tok v)" by simp
    then show "page_requests v' = page_requests v" by (simp add: lookup_body_page_requests)
  qed
qed

lemma replies_http_get_json:
  assumes "replies get req p"
  shows "\<exists>w1. http_get_json get req w = (Inr p, w1) \<and>
              page_requests w1 = page_requests w + (if is_page_request req then 1 else 0)"
proof -
  obtain code where c: "fst (get req (net w)) = Response code (Some p)"
      "\<not> (400 \<le> code \<and> code < 600)"
    using assms unfolding replies_def by blast
  obtain o1 n where g: "get req (net w) = (o1, n)" by (cases "get req (net w)")
  show ?thesis using c g
    by (auto simp: http_get_json_def Let_def page_requests_def)
qed

text \<open>
  What the lookup returns from a server that answers it alike in every state: no
  timestamp when the body has an error envelope or no \<open>created_time\<close>, else the parsed
  timestamp without its timezone.
\<close>

lemma lookup_gives_body:
  assumes "\<And>w. \<exists>w'. fetch_ad_creation_time_body get isoparse ad_id tok w = (Inr c, w')"
  shows "lookup_gives get isoparse tok ad_id c"
  unfolding lookup_gives_def
proof
  fix w
  obtain w' where "fetch_ad_creation_time_body get isoparse ad_id tok w = (Inr c, w')"
    using assms by blast
  then have "retry_call MAX_RETRIES 1
               (\<lambda>w. Some (fetch_ad_creation_time_body get isoparse ad_id tok w)) w =
             Some (Inr c, 1, w')"
    by (simp add: retry_call_ok)
  then show "\<exists>w'. fetch_ad_creation_time get isoparse ad_id tok w = Some (Inr c, w')"
    by (simp add: fetch_ad_creation_time_def retry_def)
qed

lemma lookup_absent:
  assumes "replies get (creation_time_request ad_id tok) (PDict kvs)"
    and "map_of kvs ''error'' \<noteq> None \<or> map_of kvs ''created_time'' = None"
  shows "lookup_gives get isoparse tok ad_id None"
proof (rule lookup_gives_body)
  fix w
  obtain w1 where "http_get_json get (creation_time_request ad_id tok) w = (Inr (PDict kvs), w1)"
    using replies_http_get_json[OF assms(1), of w] by blast
  then show "\<exists>w'. fetch_ad_creation_time_body get isoparse ad_id tok w = (Inr None, w')"
    using assms(2)
    by (cases "map_of kvs ''error''") (auto simp: fetch_ad_creation_time_body_def)
qed

lemma lookup_timestamp:
  assumes "replies get (creation_time_request ad_id tok) (PDict kvs)"
    and "map_of kvs ''error'' = None" and "map_of kvs ''created_time'' = Some created_str"
    and "truthy created_str" and "isoparse created_str = Inr dt"
  shows "lookup_gives get isoparse tok ad_id (Some (dt\<lparr>tzinfo := None\<rparr>))"
proof (rule lookup_gives_body)
  fix w
  obtain w1 where "http_get_json get (creation_time_request ad_id tok) w = (Inr (PDict kvs), w1)"
    using replies_http_get_json[OF assms(1), of w] by blast
  then show "\<exists>w'. fetch_ad_creation_time_body get isoparse ad_id tok w =
                  (Inr (Some (dt\<lparr>tzinfo := None\<rparr>)), w')"
    using assms(2-5) by (simp add: fetch_ad_creation_time_body_def)
qed

lemma static_lookups:
  "lookup_gives static_get fixed_isoparse ''T'' (PStr ''A1'') (static_created (PStr ''A1''))"
  "lookup_gives static_get fixed_isoparse ''T'' (PStr ''A2'') (static_created (PStr ''A2''))"
  "lookup_gives static_get fixed_isoparse ''T'' (PStr ''A3'') (static_created (PStr ''A3''))"
proof -
  have r: "\<And>i. replies static_get (creation_time_request i ''T'') (lookup_reply i)"
    by (simp add: replies_def static_get_def creation_time_request_def)
  show "lookup_gives static_get fixed_isoparse ''T'' (PStr ''A1'') (static_created (PStr ''A1''))"
    using lookup_timestamp[of static_get "PStr ''A1''" "''T''"
        "[(''created_time'', PStr ''2024-10-05T08:30:00+0000'')]"
        "PStr ''2024-10-05T08:30:00+0000''" fixed_isoparse] r[of "PStr ''A1''"]
    by (simp add: lookup_reply_def fixed_isoparse_def static_created_def)
  show "lookup_gives static_get fixed_isoparse ''T'' (PStr ''A2'') (static_created (PStr ''A2''))"
    using lookup_timestamp[of static_get "PStr ''A2''" "''T''"
        "[(''created_time'', PStr ''2023-01-15T12:00:00+0000'')]"
        "PStr ''2023-01-15T12:00:00+0000''" fixed_isoparse] r[of "PStr ''A2''"]
    by (simp add: lookup_reply_def fixed_isoparse_def static_created_def)
  show "lookup_gives static_get fixed_isoparse ''T'' (PStr ''A3'') (static_created (PStr ''A3''))"
    using lookup_absent[of static_get "PStr ''A3''" "''T''"
        "[(''error'', PDict [(''message'', PStr ''Unsupported get request'')])]" fixed_isoparse]
      r[of "PStr ''A3''"]
    by (simp add: lookup_reply_def static_created_def)
qed

section \<open>Properties of the paged listing fetch\<close>

text \<open>
  The loop over the records of a page always ends and sends no page request. One
  iteration of the loop over the pages, on a page served as \<open>replies\<close> says, sends one
  page request and then either raises or goes on with the next URL of the page.
\<close>

lemma filter_page_total:
  "\<exists>r w'. filter_page get isoparse tok ads all_data w = Some (r, w') \<and>
           page_requests w' = page_requests w"
proof (induction ads arbitrary: all_data w)
  case Nil
  show ?case by simp
next
  case (Cons ad rest)
  show ?case
  proof (cases "py_get ad ''ad_id'' PNone")
    case (Inl e)
    then show ?thesis by simp
  next
    case (Inr ad_id)
    show ?thesis
    proof (cases "truthy ad_id")
      case False
      then show ?thesis using Inr Cons.IH[of all_data w] by simp
    next
      case True
      obtain r w1 where l: "fetch_ad_creation_time get isoparse ad_id tok w = Some (r, w1)"
        using lookup_total by blast
      have p: "page_requests w1 = page_requests w" using l by (rule lookup_page_requests)
      show ?thesis
      proof (cases r)
        case (Inl e)
        then show ?thesis using Inr True l p by simp
      next
        case (Inr created_dt)
        show ?thesis
          using \<open>py_get ad ''ad_id'' PNone = Inr ad_id\<close> True l p Inr
            Cons.IH[of "all_data @ [ad]" w1] Cons.IH[of all_data w1]
          by (cases "keeps created_dt") auto
      qed
    qed
  qed
qed

lemma fetch_pages_step:
  assumes "truthy u" and "replies get \<lparr>req_url = [Fmt u], req_params = ps\<rparr> p"
  shows "(\<exists>e w1. fetch_pages (Suc fuel) get isoparse tok u ps all_data w = Some (Inl e, w1) \<and>
                  page_requests w1 = Suc (page_requests w))
       \<or> (\<exists>nx all' w2. page_next p = Inr nx \<and> page_requests w2 = Suc (page_requests w) \<and>
             fetch_pages (Suc fuel) get isoparse tok u ps all_data w =
               fetch_pages fuel get isoparse tok nx (if truthy nx then [] else ps) all' w2)"
proof -
  obtain w1 where h: "http_get_json get \<lparr>req_url = [Fmt u], req_params = ps\<rparr> w = (Inr p, w1)"
      and p1: "page_requests w1 = Suc (page_requests w)"
    using replies_http_get_json[OF assms(2), of w] by auto
  show ?thesis
  proof (cases "py_in ''error'' p")
    case (Inl e)
    then show ?thesis using assms(1) h p1 by (simp add: page_failed_def)
  next
    case (Inr b)
    show ?thesis
    proof (cases b)
      case True
      then show ?thesis using assms(1) h p1 Inr
        by (cases "py_subscript p ''error''") (simp_all add: page_failed_def)
    next
      case False
      show ?thesis
      proof (cases "py_get p ''data'' (PList [])")
        case (Inl e)
        then show ?thesis using assms(1) h p1 Inr False by (simp add: page_failed_def)
      next
        case pd: (Inr page_data)
        show ?thesis
        proof (cases "py_iter page_data")
          case (Inl e)
          then show ?thesis using assms(1) h p1 Inr False pd by (simp add: page_failed_def)
        next
          case ads: (Inr ads)
          obtain r w2 where f: "filter_page get isoparse tok ads all_data w1 = Some (r, w2)"
              and p2: "page_requests w2 = page_requests w1"
            using filter_page_total by blast
          show ?thesis
          proof (cases r)
            case (Inl e)
            then show ?thesis using assms(1) h p1 Inr False pd ads f p2
              by (simp add: page_failed_def)
          next
            case all': (Inr all')
            show ?thesis
            proof (cases "page_next p")
              case (Inl e)
              then show ?thesis using assms(1) h p1 Inr False pd ads f p2 all'
                by (simp add: page_failed_def)
            next
              case nx: (Inr nx)
              have "fetch_pages (Suc fuel) get isoparse tok u ps all_data w =
                      fetch_pages fuel get isoparse tok nx (if truthy nx then [] else ps) all' w2"
                using assms(1) h Inr False pd ads f all' nx by simp
              then show ?thesis using p1 p2 nx by auto
            qed
          qed
        qed
      qed
    qed
  qed
qed

lemma fetch_pages_chain:
  "page_chain get u ps pages \<Longrightarrow> truthy u \<Longrightarrow> length pages \<le> fuel \<Longrightarrow>
   \<exists>r w'. fetch_pages fuel get isoparse tok u ps all_data w = Some (r, w') \<and>
          page_requests w' \<le> page_requests w + length pages \<and>
          (isl r \<or> page_requests w' = page_requests w + length pages)"
proof (induction get u ps pages arbitrary: fuel all_data w rule: page_chain.induct)
  case (1 get u ps)
  then show ?case by simp
next
  case (2 get u ps p)
  then obtain fuel' where fu: "fuel = Suc fuel'" by (cases fuel) auto
  from 2 obtain nx where r: "replies get \<lparr>req_url = [Fmt u], req_params = ps\<rparr> p"
      and nx: "page_next p = Inr nx" "\<not> truthy nx" by auto
  have stop: "\<And>ps' all' w2. fetch_pages fuel' get isoparse tok nx ps' all' w2 = Some (Inr all', w2)"
    using nx(2) by (cases fuel') simp_all
  consider (fail) e w1 where
      "fetch_pages (Suc fuel') get isoparse tok u ps all_data w = Some (Inl e, w1)"
      "page_requests w1 = Suc (page_requests w)"
    | (go) all' w2 where "page_requests w2 = Suc (page_requests w)"
      "fetch_pages (Suc fuel') get isoparse tok u ps all_data w = Some (Inr all', w2)"
    using fetch_pages_step[OF \<open>truthy u\<close> r, of fuel' isoparse tok all_data w] nx stop
    by (auto simp del: fetch_pages.simps)
  then show ?case unfolding fu by cases (simp_all del: fetch_pages.simps)
next
  case (3 get u ps p q pages)
  then obtain fuel' where fu: "fuel = Suc fuel'" and le: "length (q # pages) \<le> fuel'"
    by (cases fuel) auto
  from 3(2) obtain nx where r: "replies get \<lparr>req_url = [Fmt u], req_params = ps\<rparr> p"
      and nx: "page_next p = Inr nx" "truthy nx" "page_chain get nx [] (q # pages)" by auto
  consider (fail) e w1 where
      "fetch_pages (Suc fuel') get isoparse tok u ps all_data w = Some (Inl e, w1)"
      "page_requests w1 = Suc (page_requests w)"
    | (go) all' w2 where "page_requests w2 = Suc (page_requests w)"
      "fetch_pages (Suc fuel') get isoparse tok u ps all_data w =
         fetch_pages fuel' get isoparse tok nx [] all' w2"
    using fetch_pages_step[OF \<open>truthy u\<close> r, of fuel' isoparse tok all_data w] nx(1,2)
    by (auto simp del: fetch_pages.simps)
  then show ?case
  proof cases
    case fail
    then show ?thesis unfolding fu by (simp del: fetch_pages.simps)
  next
    case go
    obtain r' w' where "fetch_pages fuel' get isoparse tok nx [] all' w2 = Some (r', w')"
      "page_requests w' \<le> page_requests w2 + length (q # pages)"
      "isl r' \<or> page_requests w' = page_requests w2 + length (q # pages)"
      using 3(1)[OF nx(3) nx(2) le, of all' w2] by blast
    then show ?thesis using go unfolding fu by (auto simp del: fetch_pages.simps)
  qed
qed

text \<open>
  On listing pages whose lookups return, the loop over the records keeps the records
  that \<open>included\<close> names, in their order, and the loop over the pages goes through the
  whole chain.
\<close>

lemma filter_page_included:
  assumes "list_all is_dict ads"
    and "\<forall>ad \<in> set ads. truthy (record_id ad) \<longrightarrow>
           lookup_gives get isoparse tok (record_id ad) (lk (record_id ad))"
  shows "\<exists>w'. filter_page get isoparse tok ads all_data w =
               Some (Inr (all_data @ filter (included lk) ads), w')"
  using assms
proof (induction ads arbitrary: all_data w)
  case Nil
  show ?case by simp
next
  case (Cons ad rest)
  then obtain kvs where ad: "ad = PDict kvs" by (cases ad) auto
  have g: "py_get ad ''ad_id'' PNone = Inr (record_id ad)" using ad by simp
  have rest: "list_all is_dict rest"
    "\<forall>ad \<in> set rest. truthy (record_id ad) \<longrightarrow>
       lookup_gives get isoparse tok (record_id ad) (lk (record_id ad))"
    using Cons.prems by auto
  show ?case
  proof (cases "truthy (record_id ad)")
    case False
    then have "\<not> included lk ad" by (simp add: included_def)
    then show ?thesis using g False Cons.IH[OF rest, of all_data w] by simp
  next
    case True
    then have "lookup_gives get isoparse tok (record_id ad) (lk (record_id ad))"
      using Cons.prems by simp
    then obtain w1 where l: "fetch_ad_creation_time get isoparse (record_id ad) tok w =
        Some (Inr (lk (record_id ad)), w1)"
      unfolding lookup_gives_def by blast
    have k: "keeps (lk (record_id ad)) = included lk ad"
      using True by (simp add: keeps_def included_def)
    show ?thesis
    proof (cases "included lk ad")
      case True
      then show ?thesis
        using g \<open>truthy (record_id ad)\<close> l k Cons.IH[OF rest, of "all_data @ [ad]" w1] by simp
    next
      case False
      then show ?thesis
        using g \<open>truthy (record_id ad)\<close> l k Cons.IH[OF rest, of all_data w1] by simp
    qed
  qed
qed

lemma listing_page_data:
  assumes "listing_page p"
  shows "py_in ''error'' p = Inr False \<and>
         (\<exists>pd. py_get p ''data'' (PList []) = Inr pd \<and> py_iter pd = Inr (page_records p)) \<and>
         list_all is_dict (page_records p)"
proof -
  obtain kvs where p: "p = PDict kvs" using assms by (cases p) auto
  show ?thesis
  proof (cases "map_of kvs ''data''")
    case None
    then show ?thesis using assms p by simp
  next
    case (Some v)
    then show ?thesis using assms p by (cases v) auto
  qed
qed

lemma fetch_pages_listing_step:
  assumes "truthy u" and "replies get \<lparr>req_url = [Fmt u], req_params = ps\<rparr> p"
    and "listing_page p"
    and "\<forall>ad \<in> set (page_records p). truthy (record_id ad) \<longrightarrow>
           lookup_gives get isoparse tok (record_id ad) (lk (record_id ad))"
    and "page_next p = Inr nx"
  shows "\<exists>w2. fetch_pages (Suc fuel) get isoparse tok u ps all_data w =
               fetch_pages fuel get isoparse tok nx (if truthy nx then [] else ps)
                 (all_data @ filter (included lk) (page_records p)) w2"
proof -
  obtain w1 where h: "http_get_json get \<lparr>req_url = [Fmt u], req_params = ps\<rparr> w = (Inr p, w1)"
    using replies_http_get_json[OF assms(2), of w] by auto
  obtain pd where d: "py_in ''error'' p = Inr False" "py_get p ''data'' (PList []) = Inr pd"
      "py_iter pd = Inr (page_records p)" "list_all is_dict (page_records p)"
    using listing_page_data[OF assms(3)] by blast
  obtain w2 where f: "filter_page get isoparse tok (page_records p) all_data w1 =
      Some (Inr (all_data @ filter (included lk) (page_records p)), w2)"
    using filter_page_included[OF d(4) assms(4), of all_data w1] by blast
  have "fetch_pages (Suc fuel) get isoparse tok u ps all_data w =
        fetch_pages fuel get isoparse tok nx (if truthy nx then [] else ps)
          (all_data @ filter (included lk) (page_records p)) w2"
    using assms(1,5) h d(1-3) f by simp
  then show ?thesis by blast
qed

lemma fetch_pages_listing:
  "page_chain get u ps pages \<Longrightarrow> truthy u \<Longrightarrow> length pages \<le> fuel \<Longrightarrow>
   \<forall>p \<in> set pages. listing_page p \<and>
     (\<forall>ad \<in> set (page_records p). truthy (record_id ad) \<longrightarrow>
        lookup_gives get isoparse tok (record_id ad) (lk (record_id ad))) \<Longrightarrow>
   \<exists>w'. fetch_pages fuel get isoparse tok u ps all_data w =
          Some (Inr (all_data @ filter (included lk) (concat (map page_records pages))), w')"
proof (induction get u ps pages arbitrary: fuel all_data w rule: page_chain.induct)
  case (1 get u ps)
  then show ?case by simp
next
  case (2 get u ps p)
  then obtain fuel' where fu: "fuel = Suc fuel'" by (cases fuel) auto
  from 2 obtain nx where r: "replies get \<lparr>req_url = [Fmt u], req_params = ps\<rparr> p"
      and nx: "page_next p = Inr nx" "\<not> truthy nx" by auto
  have lp: "listing_page p"
    "\<forall>ad \<in> set (page_records p). truthy (record_id ad) \<longrightarrow>
       lookup_gives get isoparse tok (record_id ad) (lk (record_id ad))"
    using 2 by auto
  have stop: "\<And>ps' all' w2. fetch_pages fuel' get isoparse tok nx ps' all' w2 = Some (Inr all', w2)"
    using nx(2) by (cases fuel') simp_all
  obtain w2 where "fetch_pages (Suc fuel') get isoparse tok u ps all_data w =
      fetch_pages fuel' get isoparse tok nx (if truthy nx then [] else ps)
        (all_data @ filter (included lk) (page_records p)) w2"
    using fetch_pages_listing_step[OF \<open>truthy u\<close> r lp nx(1)] by blast
  then show ?case unfolding fu stop by simp
next
  case (3 get u ps p q pages)
  then obtain fuel' where fu: "fuel = Suc fuel'" and le: "length (q # pages) \<le> fuel'"
    by (cases fuel) auto
  from 3(2) obtain nx where r: "replies get \<lparr>req_url = [Fmt u], req_params = ps\<rparr> p"
      and nx: "page_next p = Inr nx" "truthy nx" "page_chain get nx [] (q # pages)" by auto
  have lp: "listing_page p"
    "\<forall>ad \<in> set (page_records p). truthy (record_id ad) \<longrightarrow>
       lookup_gives get isoparse tok (record_id ad) (lk (record_id ad))"
    using 3(5) by auto
  have rest: "\<forall>p \<in> set (q # pages). listing_page p \<and>
     (\<forall>ad \<in> set (page_records p). truthy (record_id ad) \<longrightarrow>
        lookup_gives get isoparse tok (record_id ad) (lk (record_id ad)))"
    using 3(5) by auto
  obtain w2 where s: "fetch_pages (Suc fuel') get isoparse tok u ps all_data w =
      fetch_pages fuel' get isoparse tok nx []
        (all_data @ filter (included lk) (page_records p)) w2"
    using fetch_pages_listing_step[OF \<open>truthy u\<close> r lp nx(1)] nx(2) by (metis (full_types))
  obtain w' where "fetch_pages fuel' get isoparse tok nx []
        (all_data @ filter (included lk) (page_records p)) w2 =
      Some (Inr ((all_data @ filter (included lk) (page_records p)) @
                 filter (included lk) (concat (map page_records (q # pages)))), w')"
    using 3(1)[OF nx(3) nx(2) le rest] by blast
  then show ?case unfolding fu s by simp
qed

lemma static_chain:
  "page_chain static_get (PStr (insights_url ''123'')) (insights_params ''2024-10-31'' ''T'')
     [page1, page2]"
  by (simp add: replies_def static_get_def listing_reply_def insights_url_def API_VERSION_def
      page_next_def page1_def page2_def)

text \<open>
  Claim C1, as stated, fails: a record with a non-empty identifier whose lookup returns
  a timestamp after the cutoff date is in no result when the lookup of another record
  raises, since the fetch then raises. Here the lookup of \<open>A1\<close> returns 5 October 2024
  and the lookup of \<open>A2\<close>, on the same page, times out at every attempt.
\<close>

theorem fetch_api_data_lookup_failure_counterexample:
  "map_option fst
     (fetch_ad_creation_time partly_down_get fixed_isoparse (PStr ''A1'') ''T'' world0) =
     Some (Inr (static_created (PStr ''A1'')))
   \<and> included static_created ad_new
   \<and> ad_new \<in> set (page_records page1)
   \<and> map_option fst
       (fetch_api_data 2 partly_down_get fixed_isoparse ''2024-10-31'' example_config world0) =
     Some (Inl (RetryError (RetryError (RequestException ''timed out''))))"
  by (simp add: fetch_api_data_def fetch_api_data_body_def retry_def MAX_RETRIES_def
      retry_call.simps fetch_ad_creation_time_def fetch_ad_creation_time_body_def
      http_get_json_def partly_down_get_def listing_reply_def lookup_reply_def
      creation_time_request_def example_config_def world0_def Let_def page_failed_def
      page1_def page2_def ad_new_def ad_old_def ad_gone_def ad_noid_def keeps_def
      fixed_isoparse_def static_created_def included_def dt_ge_def dt_fields_def
      CUTOFF_DATE_def insights_url_def API_VERSION_def numeral_2_eq_2)

text \<open>
  Claim C1, amended. When the listing is a chain of listing pages and the lookup of each
  non-empty identifier on them returns (a timestamp or none, \<open>lk\<close> of the identifier),
  \<open>fetch_api_data\<close> returns exactly the records of the pages, in their order, that have
  a non-empty identifier whose lookup returned a timestamp on or after the cutoff date.
  A lookup answered with an error envelope or with no \<open>created_time\<close> returns none, so
  its record is left out.
\<close>

theorem fetch_api_data_included:
  assumes "map_of config ''accessToken'' = Some tok"
    and "map_of config ''adAccountId'' = Some acct"
    and "page_chain get (PStr (insights_url acct)) (insights_params d tok) pages"
    and "length pages \<le> fuel"
    and "\<forall>p \<in> set pages. listing_page p"
    and "\<forall>p \<in> set pages. \<forall>ad \<in> set (page_records p). truthy (record_id ad) \<longrightarrow>
           lookup_gives get isoparse tok (record_id ad) (lk (record_id ad))"
  shows "(\<exists>w'. fetch_api_data fuel get isoparse d config w =
                 Some (Inr (filter (included lk) (concat (map page_records pages))), w'))
       \<and> (\<forall>ad_id kvs. replies get (creation_time_request ad_id tok) (PDict kvs) \<and>
              (map_of kvs ''error'' \<noteq> None \<or> map_of kvs ''created_time'' = None) \<longrightarrow>
              lookup_gives get isoparse tok ad_id None)"
proof
  have t: "truthy (PStr (insights_url acct))" by (simp add: insights_url_def)
  have "\<forall>p \<in> set pages. listing_page p \<and>
     (\<forall>ad \<in> set (page_records p). truthy (record_id ad) \<longrightarrow>
        lookup_gives get isoparse tok (record_id ad) (lk (record_id ad)))"
    using assms(5,6) by blast
  then obtain w' where "fetch_pages fuel get isoparse tok (PStr (insights_url acct))
      (insights_params d tok) [] w =
      Some (Inr ([] @ filter (included lk) (concat (map page_records pages))), w')"
    using fetch_pages_listing[OF assms(3) t assms(4), of isoparse tok lk "[]" w] by blast
  then have "fetch_api_data_body fuel get isoparse d config w =
      Some (Inr (filter (included lk) (concat (map page_records pages))), w')"
    using assms(1,2) by (simp add: fetch_api_data_body_def)
  then have "retry_call MAX_RETRIES 1 (fetch_api_data_body fuel get isoparse d config) w =
      Some (Inr (filter (included lk) (concat (map page_records pages))), 1, w')"
    by (rule retry_call_ok)
  then show "\<exists>w'. fetch_api_data fuel get isoparse d config w =
      Some (Inr (filter (included lk) (concat (map page_records pages))), w')"
    by (simp add: fetch_api_data_def retry_def)
next
  show "\<forall>ad_id kvs. replies get (creation_time_request ad_id tok) (PDict kvs) \<and>
          (map_of kvs ''error'' \<noteq> None \<or> map_of kvs ''created_time'' = None) \<longrightarrow>
          lookup_gives get isoparse tok ad_id None"
    using lookup_absent by blast
qed

theorem fetch_api_data_included_witness:
  "\<exists>w'. fetch_api_data 2 static_get fixed_isoparse ''2024-10-31'' example_config world0 =
          Some (Inr [ad_new], w')"
proof -
  have h1: "map_of example_config ''accessToken'' = Some ''T''"
    and h2: "map_of example_config ''adAccountId'' = Some ''123''"
    by (simp_all add: example_config_def)
  have h4: "length [page1, page2] \<le> (2::nat)" by simp
  have h5: "\<forall>p \<in> set [page1, page2]. listing_page p"
    by (simp add: page1_def page2_def ad_new_def ad_old_def ad_gone_def ad_noid_def)
  have h6: "\<forall>p \<in> set [page1, page2]. \<forall>ad \<in> set (page_records p). truthy (record_id ad) \<longrightarrow>
      lookup_gives static_get fixed_isoparse ''T'' (record_id ad) (static_created (record_id ad))"
    using static_lookups
    by (simp add: page1_def page2_def ad_new_def ad_old_def ad_gone_def ad_noid_def)
  have f: "filter (included static_created) (concat (map page_records [page1, page2])) = [ad_new]"
    by (simp add: included_def static_created_def page1_def page2_def ad_new_def ad_old_def
        ad_gone_def ad_noid_def dt_ge_def dt_fields_def CUTOFF_DATE_def)
  show ?thesis
    using fetch_api_data_included[OF h1 h2 static_chain h4 h5 h6, of world0] f by simp
qed

text \<open>
  Claim C8, as stated, fails: on a chain of two pages whose first page holds a record
  whose lookup times out at every attempt, the pass raises after one page request.
\<close>

theorem fetch_pass_lookup_failure_counterexample:
  "page_chain partly_down_get (PStr (insights_url ''123''))
     (insights_params ''2024-10-31'' ''T'') [page1, page2]
   \<and> map_option (\<lambda>(r, w). (r, page_requests w))
       (fetch_api_data_body 2 partly_down_get fixed_isoparse ''2024-10-31'' example_config
          world0) =
     Some (Inl (RetryError (RequestException ''timed out'')), 1)"
proof
  show "page_chain partly_down_get (PStr (insights_url ''123''))
     (insights_params ''2024-10-31'' ''T'') [page1, page2]"
    by (simp add: replies_def partly_down_get_def listing_reply_def insights_url_def
        API_VERSION_def page_next_def page1_def page2_def)
  show "map_option (\<lambda>(r, w). (r, page_requests w))
       (fetch_api_data_body 2 partly_down_get fixed_isoparse ''2024-10-31'' example_config
          world0) =
     Some (Inl (RetryError (RequestException ''timed out'')), 1)"
    by (simp add: fetch_api_data_body_def retry_def MAX_RETRIES_def
      retry_call.simps fetch_ad_creation_time_def fetch_ad_creation_time_body_def
      http_get_json_def partly_down_get_def listing_reply_def lookup_reply_def
      creation_time_request_def example_config_def world0_def Let_def page_failed_def
      page1_def page2_def ad_new_def ad_old_def ad_gone_def ad_noid_def keeps_def
      fixed_isoparse_def dt_ge_def dt_fields_def page_requests_def
      CUTOFF_DATE_def insights_url_def API_VERSION_def numeral_2_eq_2)
qed

text \<open>
  Claim C8, amended. On a chain of \<open>n\<close> pages one pass of the fetch loop, given fuel
  for \<open>n\<close> iterations, ends, after at most \<open>n\<close> page requests; it has sent exactly
  \<open>n\<close> of them when it returns its records; and it does return them when the pages
  are listing pages and the lookup of each non-empty identifier on them returns.
\<close>

theorem fetch_pass_page_requests:
  assumes "map_of config ''accessToken'' = Some tok"
    and "map_of config ''adAccountId'' = Some acct"
    and "page_chain get (PStr (insights_url acct)) (insights_params d tok) pages"
    and "length pages \<le> fuel"
  shows "\<exists>r w'. fetch_api_data_body fuel get isoparse d config w = Some (r, w') \<and>
           page_requests w' \<le> page_requests w + length pages \<and>
           (\<not> isl r \<longrightarrow> page_requests w' = page_requests w + length pages) \<and>
           ((\<forall>p \<in> set pages. listing_page p \<and>
               (\<forall>ad \<in> set (page_records p). truthy (record_id ad) \<longrightarrow>
                  (\<exists>c. lookup_gives get isoparse tok (record_id ad) c))) \<longrightarrow> \<not> isl r)"
proof -
  have t: "truthy (PStr (insights_url acct))" by (simp add: insights_url_def)
  have b: "fetch_api_data_body fuel get isoparse d config w =
      fetch_pages fuel get isoparse tok (PStr (insights_url acct)) (insights_params d tok) [] w"
    using assms(1,2) by (simp add: fetch_api_data_body_def)
  obtain r w' where r: "fetch_pages fuel get isoparse tok (PStr (insights_url acct))
        (insights_params d tok) [] w = Some (r, w')"
      "page_requests w' \<le> page_requests w + length pages"
      "isl r \<or> page_requests w' = page_requests w + length pages"
    using fetch_pages_chain[OF assms(3) t assms(4), of isoparse tok "[]" w] by blast
  have "\<not> isl r"
    if wf: "\<forall>p \<in> set pages. listing_page p \<and>
               (\<forall>ad \<in> set (page_records p). truthy (record_id ad) \<longrightarrow>
                  (\<exists>c. lookup_gives get isoparse tok (record_id ad) c))"
  proof -
    define lk where "lk = (\<lambda>i. SOME c. lookup_gives get isoparse tok i c)"
    have "\<forall>p \<in> set pages. listing_page p \<and>
            (\<forall>ad \<in> set (page_records p). truthy (record_id ad) \<longrightarrow>
               lookup_gives get isoparse tok (record_id ad) (lk (record_id ad)))"
      unfolding lk_def using wf by (metis (mono_tags, lifting) someI_ex)
    then obtain w2 where "fetch_pages fuel get isoparse tok (PStr (insights_url acct))
        (insights_params d tok) [] w =
        Some (Inr ([] @ filter (included lk) (concat (map page_records pages))), w2)"
      using fetch_pages_listing[OF assms(3) t assms(4), of isoparse tok lk "[]" w] by blast
    then show ?thesis using r(1) by auto
  qed
  then show ?thesis using b r by auto
qed

theorem fetch_pass_page_requests_witness:
  "\<exists>r w'. fetch_api_data_body 2 static_get fixed_isoparse ''2024-10-31'' example_config world0 =
            Some (r, w') \<and> \<not> isl r \<and> page_requests w' = 2"
proof -
  have h1: "map_of example_config ''accessToken'' = Some ''T''"
    and h2: "map_of example_config ''adAccountId'' = Some ''123''"
    by (simp_all add: example_config_def)
  have h4: "length [page1, page2] \<le> (2::nat)" by simp
  have h5: "\<forall>p \<in> set [page1, page2]. listing_page p \<and>
      (\<forall>ad \<in> set (page_records p). truthy (record_id ad) \<longrightarrow>
         (\<exists>c. lookup_gives static_get fixed_isoparse ''T'' (record_id ad) c))"
    using static_lookups
    by (auto simp: page1_def page2_def ad_new_def ad_old_def ad_gone_def ad_noid_def)
  have p0: "page_requests world0 = 0" by (simp add: page_requests_def world0_def)
  show ?thesis
    using fetch_pass_page_requests[OF h1 h2 static_chain h4, of fixed_isoparse world0] h5 p0
    by auto
qed






section \<open>Properties of the sync endpoint\<close>

text \<open>
  Claim C3. The endpoint answers with the success body and the status 200 exactly when
  the five stages complete, and with the error body that carries the exception and the
  status 500 exactly when a stage raises that exception after the stages before it have
  completed; it gives no answer only when the fetch does not return. No exception
  leaves \<open>sync_data\<close>: its result is a response.
\<close>

theorem sync_data_response:
  "(sync_data fuel get isoparse str2f execute d sid cf cr w = Some (resp, w') \<longleftrightarrow>
      (resp = success_response \<and>
       (\<exists>config api_data daily_data w1.
          load_config cf = Inr config \<and> init_sheets_api cr = Inr () \<and>
          fetch_api_data fuel get isoparse d config w = Some (Inr api_data, w1) \<and>
          process_daily_data str2f d api_data = Inr daily_data \<and>
          write_to_sheets execute sid daily_data w1 = (Inr (), w')))
    \<or> (\<exists>e. resp = error_response e \<and>
          ((load_config cf = Inl e \<and> w' = w) \<or>
           (\<exists>config. load_config cf = Inr config \<and>
              ((init_sheets_api cr = Inl e \<and> w' = w) \<or>
               (init_sheets_api cr = Inr () \<and>
                (fetch_api_data fuel get isoparse d config w = Some (Inl e, w') \<or>
                 (\<exists>api_data w1.
                    fetch_api_data fuel get isoparse d config w = Some (Inr api_data, w1) \<and>
                    ((process_daily_data str2f d api_data = Inl e \<and> w' = w1) \<or>
                     (\<exists>daily_data. process_daily_data str2f d api_data = Inr daily_data \<and>
                        write_to_sheets execute sid daily_data w1 = (Inl e, w')))))))))))
   \<and> (sync_data fuel get isoparse str2f execute d sid cf cr w = None \<longleftrightarrow>
        (\<exists>config. load_config cf = Inr config \<and> init_sheets_api cr = Inr () \<and>
           fetch_api_data fuel get isoparse d config w = None))
   \<and> success_response =
        \<lparr>json_body = [(''status'', Text ''success''), (''message'', Text ''Data sync completed'')],
         status_code = 200\<rparr>
   \<and> (\<forall>e. error_response e =
        \<lparr>json_body = [(''status'', Text ''error''), (''message'', StrOf e)], status_code = 500\<rparr>)"
proof -
  have ne: "success_response \<noteq> error_response e" for e
    by (simp add: success_response_def error_response_def)
  have inj: "error_response e = error_response e' \<longleftrightarrow> e = e'" for e e'
    by (auto simp: error_response_def)
  show ?thesis
    unfolding sync_data_def sync_pipeline_def
    by (auto simp: ne ne[symmetric] inj success_response_def[symmetric]
        simp del: One_nat_def split: sum.splits option.splits prod.splits)
       (simp_all add: success_response_def error_response_def)
qed

theorem sync_data_response_witness:
  "(\<exists>w'. sync_data 2 static_get fixed_isoparse fixed_str2f (sheet_service []) ''2024-10-31''
            ''id'' (Some (Inr example_config)) (Some (Inr ())) world0 =
          Some (success_response, w') \<and>
          calls w' =
            [ValuesGet ''id'' (ColRange ''Sheet1'' ''A'' ''A''),
             ValuesUpdate ''id'' (CellRange ''Sheet1'' ''A'' 1 ''F'' 2) ''RAW''
               (sheet_rows one_row)])
   \<and> sync_data 2 static_get fixed_isoparse fixed_str2f (sheet_service []) ''2024-10-31''
        ''id'' None (Some (Inr ())) world0 =
      Some (error_response (FileNotFoundError ''passkeys.json''), world0)"
proof -
  have c: "load_config (Some (Inr example_config)) = Inr example_config"
    by (simp add: load_config_def example_config_def)
  have i: "init_sheets_api (Some (Inr ())) = Inr ()" by (simp add: init_sheets_api_def)
  obtain w1 where f: "fetch_api_data 2 static_get fixed_isoparse ''2024-10-31'' example_config
      world0 = Some (Inr [ad_new], w1)" "calls w1 = []" "net w1 = 5"
    by (simp add: fetch_api_data_def fetch_api_data_body_def retry_def MAX_RETRIES_def
      retry_call.simps fetch_ad_creation_time_def fetch_ad_creation_time_body_def
      http_get_json_def static_get_def listing_reply_def lookup_reply_def
      creation_time_request_def example_config_def world0_def Let_def page_failed_def
      page1_def page2_def ad_new_def ad_old_def ad_gone_def ad_noid_def keeps_def page_next_def
      fixed_isoparse_def dt_ge_def dt_fields_def
      CUTOFF_DATE_def insights_url_def API_VERSION_def numeral_2_eq_2)
  have p: "process_daily_data fixed_str2f ''2024-10-31'' [ad_new] = Inr one_row"
    by (simp add: process_daily_data_def process_entry_def make_row_def parse_spend_def
        fixed_str2f_def ad_new_def one_row_def)
  obtain w2 where wr: "write_to_sheets (sheet_service []) ''id'' one_row w1 = (Inr (), w2)"
      "calls w2 = [ValuesGet ''id'' (ColRange ''Sheet1'' ''A'' ''A''),
             ValuesUpdate ''id'' (CellRange ''Sheet1'' ''A'' 1 ''F'' 2) ''RAW''
               (sheet_rows one_row)]"
    using f(2)
    by (simp add: write_to_sheets_def get_next_empty_row_def sheets_execute_def
        sheet_service_def sheet_rows_def one_row_def Let_def)
  have l: "load_config None = Inl (FileNotFoundError ''passkeys.json'')"
    by (simp add: load_config_def)
  show ?thesis
    using sync_data_response[of 2 static_get fixed_isoparse fixed_str2f "sheet_service []"
        "''2024-10-31''" "''id''" "Some (Inr example_config)" "Some (Inr ())" world0
        success_response w2]
      sync_data_response[of 2 static_get fixed_isoparse fixed_str2f "sheet_service []"
        "''2024-10-31''" "''id''" None "Some (Inr ())" world0
        "error_response (FileNotFoundError ''passkeys.json'')" world0]
      c i f(1) p wr l
    by auto
qed

end
